theory Spec2Isabelle
  imports Complex_Main "HOL-Library.Multiset"
begin

section \<open>Data model\<close>

text \<open>
  Modelled from the spec: the type declarations of the simulator (module \<open>types\<close>) are
  not among the sources. The enumerations and records below follow the data model of
  the spec (section 3) and keep the properties that the source functions read and
  write.

  A JavaScript \<open>Date\<close> is \<open>DateOf t\<close> with its time value \<open>t\<close>, an \<open>int\<close> of milliseconds
  since the epoch, or an Invalid Date; the expiry date of a reservation, which is only
  compared, is its time value. An optional property (\<open>x?: T\<close>) is an \<open>option\<close>;
  \<open>== null\<close> is \<open>= None\<close>. A JavaScript \<open>Map\<close> is an association list in insertion
  order; \<open>Map.get\<close> is \<open>map_of\<close> and \<open>Map.size\<close> is \<open>length\<close>. Identifiers, stack
  levels, \<open>startPeriod\<close> and \<open>duration\<close> (seconds) are integers, as OCPP has them;
  limits, voltages and powers are rationals.
\<close>

datatype AvailabilityType = Operative | Inoperative

datatype ConnectorStatusEnum =
  Available | Preparing | Charging | SuspendedEV | SuspendedEVSE | Finishing
  | Reserved | Unavailable | Faulted

datatype ChargingProfileKindType = ABSOLUTE | RECURRING | RELATIVE

datatype RecurrencyKindType = DAILY | WEEKLY

datatype ChargingRateUnitType = WATT | AMPERE

datatype CurrentType = AC | DC

datatype Date = InvalidDate | DateOf int

record ChargingSchedulePeriod =
  startPeriod :: int
  limit :: rat

record ChargingSchedule =
  startSchedule :: "Date option"
  duration :: "int option"
  chargingRateUnit :: ChargingRateUnitType
  chargingSchedulePeriod :: "ChargingSchedulePeriod list"

record ChargingProfile =
  chargingProfileId :: int
  stackLevel :: int
  chargingProfileKind :: ChargingProfileKindType
  recurrencyKind :: "RecurrencyKindType option"
  validFrom :: "Date option"
  validTo :: "Date option"
  chargingSchedule :: ChargingSchedule

record Reservation =
  reservationId :: int
  connectorId :: int
  idTag :: string
  expiryDate :: int

record ConnectorStatus =
  availability :: "AvailabilityType option"
  status :: "ConnectorStatusEnum option"
  bootStatus :: "ConnectorStatusEnum option"
  transactionStarted :: "bool option"
  transactionStart :: "Date option"
  chargingProfiles :: "ChargingProfile list option"
  reservation :: "Reservation option"

record EvseStatus =
  evseAvailability :: "AvailabilityType option"
  evseConnectors :: "(int \<times> ConnectorStatus) list"

record ChargingStationInfo =
  currentOutType :: "CurrentType option"
  numberOfPhases :: "int option"
  voltageOut :: "rat option"
  maximumPower :: "rat option"

text \<open>
  A StatusNotification request handed to \<open>ocppRequestService.requestHandler\<close>; the
  station's field \<open>requestsSent\<close> logs them in order. The record \<open>ChargingStation\<close>
  holds the fields of the class that the connector, reservation and smart-charging
  functions use; the lifecycle flags and the registration state of the class are
  records of their own further down, next to the methods that use them.
\<close>

datatype StatusNotificationRequest = StatusNotification int ConnectorStatusEnum

record ChargingStation =
  connectors :: "(int \<times> ConnectorStatus) list"
  evses :: "(int \<times> EvseStatus) list"
  stationInfo :: "ChargingStationInfo option"
  powerDivider :: "rat option"
  requestsSent :: "StatusNotificationRequest list"

datatype error = BaseError string | TypeError

section \<open>Connector lookup\<close>

definition hasEvses :: "ChargingStation \<Rightarrow> bool" where
  "hasEvses st = (length (connectors st) = 0 \<and> length (evses st) > 0)"

fun getConnectorStatusEvses :: "(int \<times> EvseStatus) list \<Rightarrow> int \<Rightarrow> ConnectorStatus option" where
  "getConnectorStatusEvses [] cid = None"
| "getConnectorStatusEvses ((evseId, evseStatus) # es) cid =
     (case map_of (evseConnectors evseStatus) cid of
        Some c \<Rightarrow> Some c
      | None \<Rightarrow> getConnectorStatusEvses es cid)"

definition getConnectorStatus :: "ChargingStation \<Rightarrow> int \<Rightarrow> ConnectorStatus option" where
  "getConnectorStatus st cid =
     (if hasEvses st then getConnectorStatusEvses (evses st) cid
      else map_of (connectors st) cid)"

definition isChargingStationAvailable :: "ChargingStation \<Rightarrow> bool" where
  "isChargingStationAvailable st =
     (case getConnectorStatus st 0 of
        None \<Rightarrow> False
      | Some c \<Rightarrow> availability c = Some Operative)"

definition isConnectorAvailable :: "ChargingStation \<Rightarrow> int \<Rightarrow> bool" where
  "isConnectorAvailable st cid =
     (cid > 0 \<and>
      (case getConnectorStatus st cid of
         None \<Rightarrow> False
       | Some c \<Rightarrow> availability c = Some Operative))"

section \<open>Boot connector status\<close>

definition getBootConnectorStatus ::
  "ChargingStation \<Rightarrow> int \<Rightarrow> ConnectorStatus \<Rightarrow> ConnectorStatusEnum" where
  "getBootConnectorStatus chargingStation cid connectorStatus =
     (if status connectorStatus = None \<and>
         (\<not> isChargingStationAvailable chargingStation \<or>
          \<not> isConnectorAvailable chargingStation cid)
      then Unavailable
      else if status connectorStatus = None \<and> bootStatus connectorStatus \<noteq> None
      then the (bootStatus connectorStatus)
      else if status connectorStatus \<noteq> None
      then the (status connectorStatus)
      else Available)"

section \<open>Reservation manager\<close>

text \<open>
  \<open>UnknownReason\<close> stands for any run-time value of \<open>reason\<close> that is none of the five
  enumeration members (the \<open>default\<close> branch of the \<open>switch\<close>); it carries the value
  as printed in the error message.
\<close>

datatype ReservationTerminationReason =
  EXPIRED | TRANSACTION_STARTED | CONNECTOR_STATE_CHANGED | RESERVATION_CANCELED
  | REPLACE_EXISTING | UnknownReason string

text \<open>\<open>isPast(reservation.expiryDate)\<close>: the date is before the current time \<open>now\<close>.\<close>

definition hasReservationExpired :: "Reservation \<Rightarrow> int \<Rightarrow> bool" where
  "hasReservationExpired r now = (expiryDate r < now)"

text \<open>The pair \<open>(filterKey, value)\<close> of \<open>getReservationBy\<close>.\<close>

datatype ReservationFilter = ByReservationId int | ByIdTag string

fun reservationHas :: "Reservation \<Rightarrow> ReservationFilter \<Rightarrow> bool" where
  "reservationHas r (ByReservationId v) = (reservationId r = v)"
| "reservationHas r (ByIdTag v) = (idTag r = v)"

fun getReservationByConnectors ::
  "(int \<times> ConnectorStatus) list \<Rightarrow> ReservationFilter \<Rightarrow> Reservation option" where
  "getReservationByConnectors [] f = None"
| "getReservationByConnectors ((cid, connectorStatus) # cs) f =
     (case reservation connectorStatus of
        Some r \<Rightarrow> if reservationHas r f then Some r else getReservationByConnectors cs f
      | None \<Rightarrow> getReservationByConnectors cs f)"

fun getReservationByEvses ::
  "(int \<times> EvseStatus) list \<Rightarrow> ReservationFilter \<Rightarrow> Reservation option" where
  "getReservationByEvses [] f = None"
| "getReservationByEvses ((evseId, evseStatus) # es) f =
     (case getReservationByConnectors (evseConnectors evseStatus) f of
        Some r \<Rightarrow> Some r
      | None \<Rightarrow> getReservationByEvses es f)"

definition getReservationBy :: "ChargingStation \<Rightarrow> ReservationFilter \<Rightarrow> Reservation option" where
  "getReservationBy st f =
     (if hasEvses st then getReservationByEvses (evses st) f
      else getReservationByConnectors (connectors st) f)"

text \<open>The helper \<open>getNumberOfReservableConnectors(connectors)\<close> of Helpers.\<close>

fun getNumberOfReservableConnectors :: "(int \<times> ConnectorStatus) list \<Rightarrow> int" where
  "getNumberOfReservableConnectors [] = 0"
| "getNumberOfReservableConnectors ((cid, connectorStatus) # cs) =
     (if cid = 0 then getNumberOfReservableConnectors cs
      else if status connectorStatus = Some Available
      then 1 + getNumberOfReservableConnectors cs
      else getNumberOfReservableConnectors cs)"

definition getNumberOfReservationsOnConnectorZero :: "ChargingStation \<Rightarrow> int" where
  "getNumberOfReservationsOnConnectorZero st =
     (if (hasEvses st \<and>
          (case map_of (evses st) 0 of
             None \<Rightarrow> False
           | Some e \<Rightarrow>
               (case map_of (evseConnectors e) 0 of
                  None \<Rightarrow> False
                | Some c \<Rightarrow> reservation c \<noteq> None))) \<or>
         (\<not> hasEvses st \<and>
          (case map_of (connectors st) 0 of
             None \<Rightarrow> False
           | Some c \<Rightarrow> reservation c \<noteq> None))
      then 1 else 0)"

text \<open>The private method \<open>ChargingStation.getNumberOfReservableConnectors()\<close>.\<close>

definition stationNumberOfReservableConnectors :: "ChargingStation \<Rightarrow> int" where
  "stationNumberOfReservableConnectors st =
     (if hasEvses st
      then sum_list (map (\<lambda>(evseId, e). getNumberOfReservableConnectors (evseConnectors e))
             (evses st))
      else getNumberOfReservableConnectors (connectors st))
     - getNumberOfReservationsOnConnectorZero st"

text \<open>
  \<open>isConnectorReservable(reservationId, idTag?, connectorId?)\<close>. The code branches on
  \<open>arguments.length\<close>, the number of arguments the caller wrote, so it is a parameter
  of the model; an omitted or \<open>undefined\<close> optional argument is \<open>None\<close>.
\<close>

definition isConnectorReservable ::
  "ChargingStation \<Rightarrow> int \<Rightarrow> nat \<Rightarrow> int \<Rightarrow> string option \<Rightarrow> int option \<Rightarrow> bool" where
  "isConnectorReservable st now argumentsLength rid idTagArg connectorIdArg =
     (let reservationFound = getReservationBy st (ByReservationId rid);
          reservationExists =
            (case reservationFound of
               None \<Rightarrow> False
             | Some r \<Rightarrow> \<not> hasReservationExpired r now)
      in if argumentsLength = 1 then \<not> reservationExists
         else if argumentsLength > 1 then
           (let userReservation =
                  (case idTagArg of
                     Some t \<Rightarrow> getReservationBy st (ByIdTag t)
                   | None \<Rightarrow> None);
                userReservationExists =
                  (case userReservation of
                     None \<Rightarrow> False
                   | Some r \<Rightarrow> \<not> hasReservationExpired r now);
                notConnectorZero =
                  (case connectorIdArg of None \<Rightarrow> True | Some c \<Rightarrow> c > 0);
                freeConnectorsAvailable = stationNumberOfReservableConnectors st > 0
            in \<not> reservationExists \<and> \<not> userReservationExists \<and> notConnectorZero \<and>
               freeConnectorsAvailable)
         else False)"

text \<open>
  In-place mutation of the connector object that \<open>getConnectorStatus\<close> returns: the
  first entry found under the key is replaced, every other entry and the order are kept.
\<close>

fun mutateEntry :: "int \<Rightarrow> ('a \<Rightarrow> 'a) \<Rightarrow> (int \<times> 'a) list \<Rightarrow> (int \<times> 'a) list" where
  "mutateEntry k f [] = []"
| "mutateEntry k f ((k', v) # kvs) =
     (if k' = k then (k', f v) # kvs else (k', v) # mutateEntry k f kvs)"

fun mutateConnectorEvses ::
  "int \<Rightarrow> (ConnectorStatus \<Rightarrow> ConnectorStatus) \<Rightarrow> (int \<times> EvseStatus) list \<Rightarrow>
   (int \<times> EvseStatus) list" where
  "mutateConnectorEvses cid f [] = []"
| "mutateConnectorEvses cid f ((evseId, e) # es) =
     (case map_of (evseConnectors e) cid of
        Some c \<Rightarrow> (evseId, e\<lparr>evseConnectors := mutateEntry cid f (evseConnectors e)\<rparr>) # es
      | None \<Rightarrow> (evseId, e) # mutateConnectorEvses cid f es)"

definition mutateConnectorStatus ::
  "ChargingStation \<Rightarrow> int \<Rightarrow> (ConnectorStatus \<Rightarrow> ConnectorStatus) \<Rightarrow> ChargingStation" where
  "mutateConnectorStatus st cid f =
     (if hasEvses st then st\<lparr>evses := mutateConnectorEvses cid f (evses st)\<rparr>
      else st\<lparr>connectors := mutateEntry cid f (connectors st)\<rparr>)"

text \<open>
  Modelled from the spec: \<open>sendAndSetConnectorStatus\<close> (module \<open>ocpp/index.js\<close>) is not
  among the sources. The spec (4.6) has \<open>addReservation\<close> "send StatusNotification(Reserved)
  unless connectorId==0" and \<open>removeReservation\<close> "send StatusNotification(Available) and
  clear", and both call this function with \<open>{ send: reservation.connectorId !== 0 }\<close>.
  So: when \<open>send\<close> holds a StatusNotification for the connector and status is sent, and
  in every case the connector's \<open>status\<close> is set. A connector that does not exist makes
  the assignment fail. A request that the transport rejects is not modelled.
\<close>

definition sendAndSetConnectorStatus ::
  "ChargingStation \<Rightarrow> int \<Rightarrow> ConnectorStatusEnum \<Rightarrow> bool \<Rightarrow> ChargingStation \<times> error option" where
  "sendAndSetConnectorStatus st cid s send =
     (let st1 = (if send
                 then st\<lparr>requestsSent := requestsSent st @ [StatusNotification cid s]\<rparr>
                 else st)
      in case getConnectorStatus st1 cid of
           None \<Rightarrow> (st1, Some TypeError)
         | Some c \<Rightarrow> (mutateConnectorStatus st1 cid (\<lambda>c. c\<lparr>status := Some s\<rparr>), None))"

text \<open>
  \<open>removeReservation(reservation, reason)\<close>. The result is the station as the call leaves
  it and the error thrown, if any. \<open>delete connector.reservation\<close> on a connector that
  does not exist is a \<open>TypeError\<close>.
\<close>

definition deleteReservation :: "ChargingStation \<Rightarrow> int \<Rightarrow> ChargingStation \<times> error option" where
  "deleteReservation st cid =
     (case getConnectorStatus st cid of
        None \<Rightarrow> (st, Some TypeError)
      | Some c \<Rightarrow> (mutateConnectorStatus st cid (\<lambda>c. c\<lparr>reservation := None\<rparr>), None))"

text \<open>The shared body of the cases RESERVATION_CANCELED, REPLACE_EXISTING and EXPIRED.\<close>

definition sendAvailableAndDeleteReservation ::
  "ChargingStation \<Rightarrow> Reservation \<Rightarrow> ChargingStation \<times> error option" where
  "sendAvailableAndDeleteReservation st r =
     (case sendAndSetConnectorStatus st (connectorId r) Available (connectorId r \<noteq> 0) of
        (st1, Some e) \<Rightarrow> (st1, Some e)
      | (st1, None) \<Rightarrow> deleteReservation st1 (connectorId r))"

definition removeReservation ::
  "ChargingStation \<Rightarrow> Reservation \<Rightarrow> ReservationTerminationReason \<Rightarrow>
   ChargingStation \<times> error option" where
  "removeReservation st r reason =
     (case reason of
        CONNECTOR_STATE_CHANGED \<Rightarrow> deleteReservation st (connectorId r)
      | TRANSACTION_STARTED \<Rightarrow> deleteReservation st (connectorId r)
      | RESERVATION_CANCELED \<Rightarrow> sendAvailableAndDeleteReservation st r
      | REPLACE_EXISTING \<Rightarrow> sendAvailableAndDeleteReservation st r
      | EXPIRED \<Rightarrow> sendAvailableAndDeleteReservation st r
      | UnknownReason v \<Rightarrow>
          (st, Some (BaseError (''Unknown reservation termination reason '' @ [CHR 0x27] @ v
                                @ [CHR 0x27]))))"

text \<open>Concrete connectors and stations used to evaluate the definitions.\<close>

definition connector0 :: ConnectorStatus where
  "connector0 = \<lparr>availability = Some Operative, status = None, bootStatus = None,
     transactionStarted = Some False, transactionStart = None,
     chargingProfiles = Some [], reservation = None\<rparr>"

definition stationOf :: "(int \<times> ConnectorStatus) list \<Rightarrow> ChargingStation" where
  "stationOf cs = \<lparr>connectors = cs, evses = [], stationInfo = None,
     powerDivider = None, requestsSent = []\<rparr>"

definition reservation7 :: Reservation where
  "reservation7 = \<lparr>reservationId = 7, connectorId = 1, idTag = ''TAG'', expiryDate = 1000\<rparr>"

definition reservedStation :: ChargingStation where
  "reservedStation =
     stationOf [(0, connector0),
                (1, connector0\<lparr>status := Some Reserved, reservation := Some reservation7\<rparr>),
                (2, connector0\<lparr>status := Some Available\<rparr>)]"

definition busyStation :: ChargingStation where
  "busyStation = stationOf [(0, connector0), (1, connector0\<lparr>status := Some Charging\<rparr>)]"

section \<open>Performance statistics\<close>







section \<open>Station lifecycle flags\<close>

text \<open>
  The three flags of the station that \<open>constructor\<close>, \<open>start\<close> and \<open>stop\<close> assign; no
  other code of the class writes them (\<open>initialize\<close> does not). The calls between the
  assignments are kept only as far as they can end the operation early: \<open>outcome\<close> says
  whether such a call returns or throws. None of the three methods has a \<open>try\<close> block, so
  an exception leaves the flags as they are at the call that throws.
\<close>

record LifecycleFlags =
  started :: bool
  starting :: bool
  stopping :: bool

datatype outcome = Returns | Throws

definition ChargingStation_constructor :: LifecycleFlags where
  "ChargingStation_constructor = \<lparr>started = False, starting = False, stopping = False\<rparr>"

text \<open>
  \<open>start()\<close> is synchronous. \<open>openWSConnection\<close> is the outcome of the calls between
  \<open>starting = true\<close> and \<open>started = true\<close> (\<open>performanceStatistics.start()\<close>,
  \<open>openWSConnection()\<close>, \<open>watchJsonFile(...)\<close>); \<open>emitStarted\<close> is the outcome of
  \<open>this.emit(ChargingStationEvents.started)\<close>, which runs the listeners of the event
  synchronously and rethrows what a listener throws, between \<open>started = true\<close> and
  \<open>starting = false\<close>.
\<close>

definition start :: "outcome \<Rightarrow> outcome \<Rightarrow> LifecycleFlags \<Rightarrow> LifecycleFlags" where
  "start openWSConnection emitStarted s =
     (if \<not> started s then
        (if \<not> starting s then
           (let s1 = s\<lparr>starting := True\<rparr>
            in case openWSConnection of
                 Throws \<Rightarrow> s1
               | Returns \<Rightarrow>
                   (let s2 = s1\<lparr>started := True\<rparr>
                    in case emitStarted of
                         Throws \<Rightarrow> s2
                       | Returns \<Rightarrow> s2\<lparr>starting := False\<rparr>))
         else s)
      else s)"

text \<open>
  \<open>stop()\<close> is asynchronous with one suspension point, \<open>await stopMessageSequence\<close>.
  \<open>stop_enter\<close> is the part before it (the flag tells whether the call is now
  suspended there), \<open>stop_resume\<close> the part after it. \<open>stopMessageSequence\<close> is the
  outcome of the awaited call and of the calls that follow it up to \<open>started = false\<close>
  (\<open>closeWSConnection()\<close>, the statistics and the caches); \<open>emitStopped\<close> is the outcome
  of \<open>this.saveConfiguration()\<close> and \<open>this.emit(ChargingStationEvents.stopped)\<close>, the
  calls between \<open>started = false\<close> and \<open>stopping = false\<close>. \<open>stop\<close> is the call run
  without interleaving.
\<close>

definition stop_enter :: "LifecycleFlags \<Rightarrow> LifecycleFlags \<times> bool" where
  "stop_enter s =
     (if started s then
        (if \<not> stopping s then (s\<lparr>stopping := True\<rparr>, True) else (s, False))
      else (s, False))"

definition stop_resume :: "outcome \<Rightarrow> outcome \<Rightarrow> LifecycleFlags \<Rightarrow> LifecycleFlags" where
  "stop_resume stopMessageSequence emitStopped s =
     (case stopMessageSequence of
        Throws \<Rightarrow> s
      | Returns \<Rightarrow>
          (let s1 = s\<lparr>started := False\<rparr>
           in case emitStopped of
                Throws \<Rightarrow> s1
              | Returns \<Rightarrow> s1\<lparr>stopping := False\<rparr>))"

definition stop :: "outcome \<Rightarrow> outcome \<Rightarrow> LifecycleFlags \<Rightarrow> LifecycleFlags" where
  "stop stopMessageSequence emitStopped s =
     (case stop_enter s of
        (s1, True) \<Rightarrow> stop_resume stopMessageSequence emitStopped s1
      | (s1, False) \<Rightarrow> s1)"

text \<open>
  \<open>reset()\<close>: \<open>await this.stop(reason)\<close>, \<open>await sleep(resetTime)\<close>, \<open>this.initialize()\<close>,
  \<open>this.start()\<close>. \<open>reset_tail\<close> is the part after the sleep; \<open>initialize\<close> writes no flag
  and may throw. \<open>reset\<close> is the call run without interleaving: a \<open>stop\<close> that throws
  ends it.
\<close>

definition reset_tail ::
  "outcome \<Rightarrow> outcome \<Rightarrow> outcome \<Rightarrow> LifecycleFlags \<Rightarrow> LifecycleFlags" where
  "reset_tail initialize openWSConnection emitStarted s =
     (case initialize of Throws \<Rightarrow> s | Returns \<Rightarrow> start openWSConnection emitStarted s)"

definition reset ::
  "outcome \<Rightarrow> outcome \<Rightarrow> outcome \<Rightarrow> outcome \<Rightarrow> outcome \<Rightarrow> LifecycleFlags \<Rightarrow> LifecycleFlags" where
  "reset stopMessageSequence emitStopped initialize openWSConnection emitStarted s =
     (case stop_enter s of
        (s1, True) \<Rightarrow>
          (if stopMessageSequence = Returns \<and> emitStopped = Returns
           then reset_tail initialize openWSConnection emitStarted (stop_resume Returns Returns s1)
           else stop_resume stopMessageSequence emitStopped s1)
      | (s1, False) \<Rightarrow> reset_tail initialize openWSConnection emitStarted s1)"

text \<open>
  The station as a single actor: the flags and the number of \<open>stop\<close> calls suspended at
  their \<open>await\<close>. An event is one uninterrupted run of code: a whole \<open>start\<close>, \<open>stop\<close> or
  \<open>reset\<close>, or, when calls interleave, the entry of a \<open>stop\<close>, the resumption of a
  suspended \<open>stop\<close>, or the tail of a \<open>reset\<close> (enabled at any time, which covers every
  moment at which a real \<open>reset\<close> can reach it). The outcomes an event carries are those
  of the calls it runs, in the order of the parameters above.
\<close>

datatype LifecycleEvent =
  CallStart outcome outcome
  | CallStop outcome outcome
  | CallReset outcome outcome outcome outcome outcome
  | EnterStop
  | ResumeStop outcome outcome
  | ResetTail outcome outcome outcome

fun lifecycleStep :: "LifecycleFlags \<times> nat \<Rightarrow> LifecycleEvent \<Rightarrow> LifecycleFlags \<times> nat" where
  "lifecycleStep (s, suspended) (CallStart ows es) = (start ows es s, suspended)"
| "lifecycleStep (s, suspended) (CallStop sms est) = (stop sms est s, suspended)"
| "lifecycleStep (s, suspended) (CallReset sms est ini ows es) =
     (reset sms est ini ows es s, suspended)"
| "lifecycleStep (s, suspended) EnterStop =
     (case stop_enter s of
        (s1, True) \<Rightarrow> (s1, suspended + 1)
      | (s1, False) \<Rightarrow> (s1, suspended))"
| "lifecycleStep (s, suspended) (ResumeStop sms est) =
     (if suspended > 0 then (stop_resume sms est s, suspended - 1) else (s, suspended))"
| "lifecycleStep (s, suspended) (ResetTail ini ows es) = (reset_tail ini ows es s, suspended)"

definition lifecycleRun :: "LifecycleEvent list \<Rightarrow> LifecycleFlags \<times> nat" where
  "lifecycleRun events = foldl lifecycleStep (ChargingStation_constructor, 0) events"

text \<open>
  An event in which \<open>emit(started)\<close>, \<open>saveConfiguration()\<close> and \<open>emit(stopped)\<close> return,
  whatever the other calls do.
\<close>

fun emitReturns :: "LifecycleEvent \<Rightarrow> bool" where
  "emitReturns (CallStart ows es) = (es = Returns)"
| "emitReturns (CallStop sms est) = (est = Returns)"
| "emitReturns (CallReset sms est ini ows es) = (est = Returns \<and> es = Returns)"
| "emitReturns EnterStop = True"
| "emitReturns (ResumeStop sms est) = (est = Returns)"
| "emitReturns (ResetTail ini ows es) = (es = Returns)"

section \<open>Registration on connection open\<close>

text \<open>
  The BootNotification response; \<open>registrationStatus\<close> is its property \<open>status\<close> (the
  name \<open>status\<close> is the connector's here). \<open>currentTime\<close> is only converted to a
  \<open>Date\<close> by \<open>onOpen\<close> and is left out.
\<close>

datatype RegistrationStatusEnumType = ACCEPTED | PENDING | REJECTED

record BootNotificationResponse =
  registrationStatus :: "RegistrationStatusEnumType option"
  interval :: "int option"

datatype ChargingStationEvents = registered | accepted | updated

text \<open>
  The state \<open>onOpen\<close> works on: the station's \<open>bootNotificationResponse\<close> and
  \<open>autoReconnectRetryCount\<close>, the local variable \<open>registrationRetryCount\<close>, and three
  logs of what the station did: the number of BootNotification requests handed to
  \<open>requestHandler\<close>, the durations (milliseconds) passed to \<open>sleep\<close>, and the events
  emitted.
\<close>

record RegistrationState =
  bootNotificationResponse :: "BootNotificationResponse option"
  autoReconnectRetryCount :: int
  registrationRetryCount :: int
  bootNotificationsSent :: nat
  sleeps :: "int list"
  emitted :: "ChargingStationEvents list"

definition inUnknownState :: "RegistrationState \<Rightarrow> bool" where
  "inUnknownState s =
     (case bootNotificationResponse s of
        None \<Rightarrow> True
      | Some r \<Rightarrow> registrationStatus r = None)"

definition inPendingState :: "RegistrationState \<Rightarrow> bool" where
  "inPendingState s =
     (case bootNotificationResponse s of
        None \<Rightarrow> False
      | Some r \<Rightarrow> registrationStatus r = Some PENDING)"

definition inAcceptedState :: "RegistrationState \<Rightarrow> bool" where
  "inAcceptedState s =
     (case bootNotificationResponse s of
        None \<Rightarrow> False
      | Some r \<Rightarrow> registrationStatus r = Some ACCEPTED)"

definition isRegistered :: "RegistrationState \<Rightarrow> bool" where
  "isRegistered s = (\<not> inUnknownState s \<and> (inAcceptedState s \<or> inPendingState s))"

text \<open>
  What the central system does with one BootNotification request: the promise of
  \<open>requestHandler\<close> resolves with a response or rejects. The list of these outcomes, in
  order, is the environment of the loop; when it is used up the station is left
  awaiting a response.
\<close>

datatype RequestOutcome = Resolves BootNotificationResponse | Rejects

datatype LoopEnd = LoopExited | RequestRejected | AwaitingResponse

text \<open>
  The \<open>do ... while\<close> loop of \<open>onOpen\<close>, one iteration per outcome.
  \<open>maxRetries\<close> is \<open>stationInfo.registrationMaxRetries\<close> (a comparison with
  \<open>undefined\<close> is false), \<open>defaultInterval\<close> is
  \<open>Constants.DEFAULT_BOOT_NOTIFICATION_INTERVAL\<close> (milliseconds), a constant that is not
  among the sources.
\<close>

fun registrationLoop ::
  "int option \<Rightarrow> int \<Rightarrow> RequestOutcome list \<Rightarrow> RegistrationState \<Rightarrow>
   RegistrationState \<times> LoopEnd" where
  "registrationLoop maxRetries defaultInterval [] s =
     (s\<lparr>bootNotificationsSent := bootNotificationsSent s + 1\<rparr>, AwaitingResponse)"
| "registrationLoop maxRetries defaultInterval (Rejects # outcomes) s =
     (s\<lparr>bootNotificationsSent := bootNotificationsSent s + 1\<rparr>, RequestRejected)"
| "registrationLoop maxRetries defaultInterval (Resolves response # outcomes) s =
     (let s1 = s\<lparr>bootNotificationsSent := bootNotificationsSent s + 1,
                  bootNotificationResponse := Some response\<rparr>;
          s2 = (if \<not> isRegistered s1
                then s1\<lparr>registrationRetryCount :=
                          (if maxRetries \<noteq> Some (- 1) then registrationRetryCount s1 + 1
                           else registrationRetryCount s1),
                        sleeps := sleeps s1 @
                          [case interval response of
                             Some i \<Rightarrow> i * 1000
                           | None \<Rightarrow> defaultInterval]\<rparr>
                else s1)
      in if \<not> isRegistered s2 \<and>
            ((case maxRetries of
                Some m \<Rightarrow> registrationRetryCount s2 \<le> m
              | None \<Rightarrow> False) \<or>
             maxRetries = Some (- 1))
         then registrationLoop maxRetries defaultInterval outcomes s2
         else (s2, LoopExited))"

text \<open>
  \<open>onOpen()\<close>; \<open>wsOpened\<close> is \<open>isWebSocketConnectionOpened()\<close>. A rejected or
  unanswered request leaves the method before its tail.
\<close>

definition onOpen ::
  "bool \<Rightarrow> int option \<Rightarrow> int \<Rightarrow> RequestOutcome list \<Rightarrow> RegistrationState \<Rightarrow>
   RegistrationState \<times> LoopEnd" where
  "onOpen wsOpened maxRetries defaultInterval outcomes s =
     (if wsOpened then
        (let s0 = s\<lparr>registrationRetryCount := 0\<rparr>;
             (s1, e) = (if \<not> isRegistered s0
                        then registrationLoop maxRetries defaultInterval outcomes s0
                        else (s0, LoopExited))
         in case e of
              LoopExited \<Rightarrow>
                (s1\<lparr>emitted := emitted s1 @
                       (if isRegistered s1
                        then registered # (if inAcceptedState s1 then [accepted] else [])
                        else []) @ [updated],
                     autoReconnectRetryCount := 0\<rparr>, LoopExited)
            | RequestRejected \<Rightarrow> (s1, RequestRejected)
            | AwaitingResponse \<Rightarrow> (s1, AwaitingResponse))
      else (s, LoopExited))"

definition unregisteredStation :: RegistrationState where
  "unregisteredStation = \<lparr>bootNotificationResponse = None, autoReconnectRetryCount = 0,
     registrationRetryCount = 0, bootNotificationsSent = 0, sleeps = [], emitted = []\<rparr>"

definition response :: "RegistrationStatusEnumType \<Rightarrow> int \<Rightarrow> BootNotificationResponse" where
  "response s i = \<lparr>registrationStatus = Some s, interval = Some i\<rparr>"

section \<open>Smart-charging limit resolver\<close>

subsection \<open>Dates (JavaScript and date-fns)\<close>

text \<open>
  \<open>getTime\<close> is the time value of a \<open>Date\<close>; an Invalid Date has none (it is NaN). No
  \<open>Date\<close> holds a time value beyond 8640000000000000 ms on either side of the epoch
  (\<open>maxTime\<close> of date-fns): the constructor \<open>new Date(value)\<close>, here \<open>newDate\<close>, gives an
  Invalid Date for such a value. A \<open>DateOf t\<close> beyond the bound, which no \<open>Date\<close> of
  JavaScript is, reads as an Invalid Date.
\<close>

definition maxTime :: int where
  "maxTime = 8640000000000000"

definition getTime :: "Date \<Rightarrow> int option" where
  "getTime date =
     (case date of
        InvalidDate \<Rightarrow> None
      | DateOf t \<Rightarrow> if \<bar>t\<bar> \<le> maxTime then Some t else None)"

definition newDate :: "int \<Rightarrow> Date" where
  "newDate t = (if \<bar>t\<bar> \<le> maxTime then DateOf t else InvalidDate)"

text \<open>
  The functions of date-fns (version 3) that the resolver calls and that do not depend
  on the time zone. A number that is NaN is \<open>None\<close>. \<open>truncDiv a b\<close> is
  \<open>Math.trunc(a / b)\<close>. A comparison with an Invalid Date is false; \<open>isWithinInterval\<close>
  orders the two ends of the interval before it compares, and is false when one of the
  three dates is invalid.
\<close>

definition truncDiv :: "int \<Rightarrow> int \<Rightarrow> int" where
  "truncDiv a b = (if a \<ge> 0 then a div b else - ((- a) div b))"

definition addSeconds :: "Date \<Rightarrow> int \<Rightarrow> Date" where
  "addSeconds date amount =
     (case getTime date of
        None \<Rightarrow> InvalidDate
      | Some t \<Rightarrow> newDate (t + amount * 1000))"

definition differenceInSeconds :: "Date \<Rightarrow> Date \<Rightarrow> int option" where
  "differenceInSeconds later earlier =
     (case (getTime later, getTime earlier) of
        (Some a, Some b) \<Rightarrow> Some (truncDiv (a - b) 1000)
      | _ \<Rightarrow> None)"

definition isAfter :: "Date \<Rightarrow> Date \<Rightarrow> bool" where
  "isAfter date dateToCompare =
     (case (getTime date, getTime dateToCompare) of
        (Some a, Some b) \<Rightarrow> a > b
      | _ \<Rightarrow> False)"

definition isBefore :: "Date \<Rightarrow> Date \<Rightarrow> bool" where
  "isBefore date dateToCompare =
     (case (getTime date, getTime dateToCompare) of
        (Some a, Some b) \<Rightarrow> a < b
      | _ \<Rightarrow> False)"

definition isWithinInterval :: "Date \<Rightarrow> Date \<times> Date \<Rightarrow> bool" where
  "isWithinInterval date interval' =
     (case (getTime date, getTime (fst interval'), getTime (snd interval')) of
        (Some t, Some a, Some b) \<Rightarrow> min a b \<le> t \<and> t \<le> max a b
      | _ \<Rightarrow> False)"

text \<open>
  The time zone of the process, as ECMAScript has it: \<open>offsetAtUTC t\<close> is
  \<open>LocalTZA(t, true)\<close>, the offset of local time from UTC in milliseconds at the UTC time
  value \<open>t\<close>, and \<open>offsetAtLocal t\<close> is \<open>LocalTZA(t, false)\<close>, the offset at the local time
  value \<open>t\<close>. \<open>localTime\<close> and \<open>utcTime\<close> are \<open>LocalTime\<close> and \<open>UTC\<close> of ECMAScript. In a
  zone with daylight saving the offsets change with \<open>t\<close>; \<open>fixedOffset\<close> is a zone whose
  offset never changes.
\<close>

record TimeZone =
  offsetAtUTC :: "int \<Rightarrow> int"
  offsetAtLocal :: "int \<Rightarrow> int"

definition fixedOffset :: "int \<Rightarrow> TimeZone" where
  "fixedOffset offset = \<lparr>offsetAtUTC = (\<lambda>t. offset), offsetAtLocal = (\<lambda>t. offset)\<rparr>"

definition msPerDay :: int where
  "msPerDay = 86400000"

definition localTime :: "TimeZone \<Rightarrow> int \<Rightarrow> int" where
  "localTime timeZone t = t + offsetAtUTC timeZone t"

definition utcTime :: "TimeZone \<Rightarrow> int \<Rightarrow> int" where
  "utcTime timeZone t = t - offsetAtLocal timeZone t"

text \<open>
  The two setters of \<open>Date\<close> that date-fns uses, on a date of time value \<open>t\<close>; both work on
  the local time. \<open>setDateBy n\<close> is \<open>date.setDate(date.getDate() + n)\<close>: the same time of
  day, \<open>n\<close> days later on the local calendar. \<open>startOfDay\<close> is \<open>date.setHours(0, 0, 0, 0)\<close>.
\<close>

definition setDateBy :: "TimeZone \<Rightarrow> int \<Rightarrow> int \<Rightarrow> Date" where
  "setDateBy timeZone t n = newDate (utcTime timeZone (localTime timeZone t + n * msPerDay))"

definition startOfDay :: "TimeZone \<Rightarrow> int \<Rightarrow> Date" where
  "startOfDay timeZone t =
     newDate (utcTime timeZone ((localTime timeZone t div msPerDay) * msPerDay))"

text \<open>
  \<open>addDays\<close> and \<open>addWeeks\<close>; the amount is a number, NaN when \<open>None\<close>. An amount of 0
  returns the date as it is.
\<close>

definition addDays :: "TimeZone \<Rightarrow> Date \<Rightarrow> int option \<Rightarrow> Date" where
  "addDays timeZone date amount =
     (case getTime date of
        None \<Rightarrow> InvalidDate
      | Some t \<Rightarrow>
          (case amount of
             None \<Rightarrow> InvalidDate
           | Some n \<Rightarrow> if n = 0 then DateOf t else setDateBy timeZone t n))"

definition addWeeks :: "TimeZone \<Rightarrow> Date \<Rightarrow> int option \<Rightarrow> Date" where
  "addWeeks timeZone date amount = addDays timeZone date (map_option (\<lambda>n. n * 7) amount)"

text \<open>
  \<open>differenceInDays\<close> counts the full days between two dates on the local calendar.
  \<open>compareLocalAsc\<close> compares year, month, day, hours, minutes, seconds and milliseconds
  of the two local times in this order, which is the order of the local time values.
  \<open>differenceInCalendarDays\<close> rounds the distance of the two local midnights, each read
  back through the offset at that instant, to whole days (\<open>Math.round\<close>, here
  \<open>mathRound p q\<close> for \<open>p / q\<close>). The functions are given on time values; the last
  comparison of \<open>differenceInDays\<close> is false when the date it has moved is invalid.
\<close>

definition compareLocalAsc :: "TimeZone \<Rightarrow> int \<Rightarrow> int \<Rightarrow> int" where
  "compareLocalAsc timeZone dateLeft dateRight =
     sgn (localTime timeZone dateLeft - localTime timeZone dateRight)"

definition mathRound :: "int \<Rightarrow> int \<Rightarrow> int" where
  "mathRound p q = (2 * p + q) div (2 * q)"

definition differenceInCalendarDays :: "TimeZone \<Rightarrow> int \<Rightarrow> int \<Rightarrow> int option" where
  "differenceInCalendarDays timeZone dateLeft dateRight =
     (case (getTime (startOfDay timeZone dateLeft), getTime (startOfDay timeZone dateRight)) of
        (Some startOfDayLeft, Some startOfDayRight) \<Rightarrow>
          Some (mathRound (localTime timeZone startOfDayLeft -
                           localTime timeZone startOfDayRight) msPerDay)
      | _ \<Rightarrow> None)"

definition differenceInDays :: "TimeZone \<Rightarrow> Date \<Rightarrow> Date \<Rightarrow> int option" where
  "differenceInDays timeZone dateLeft dateRight =
     (case (getTime dateLeft, getTime dateRight) of
        (Some l, Some r) \<Rightarrow>
          (case differenceInCalendarDays timeZone l r of
             None \<Rightarrow> None
           | Some calendarDays \<Rightarrow>
               (let sign = compareLocalAsc timeZone l r;
                    difference = \<bar>calendarDays\<bar>;
                    isLastDayNotFull =
                      (case getTime (setDateBy timeZone l (- sign * difference)) of
                         None \<Rightarrow> False
                       | Some moved \<Rightarrow> compareLocalAsc timeZone moved r = - sign)
                in Some (sign * (difference - (if isLastDayNotFull then 1 else 0)))))
      | _ \<Rightarrow> None)"

definition differenceInWeeks :: "TimeZone \<Rightarrow> Date \<Rightarrow> Date \<Rightarrow> int option" where
  "differenceInWeeks timeZone dateLeft dateRight =
     map_option (\<lambda>days. truncDiv days 7) (differenceInDays timeZone dateLeft dateRight)"

subsection \<open>Preparing a charging profile\<close>

text \<open>Assignments to the properties of \<open>chargingProfile.chargingSchedule\<close>.\<close>

definition setStartSchedule :: "ChargingProfile \<Rightarrow> Date option \<Rightarrow> ChargingProfile" where
  "setStartSchedule cp v = cp\<lparr>chargingSchedule := (chargingSchedule cp)\<lparr>startSchedule := v\<rparr>\<rparr>"

definition setDuration :: "ChargingProfile \<Rightarrow> int option \<Rightarrow> ChargingProfile" where
  "setDuration cp v = cp\<lparr>chargingSchedule := (chargingSchedule cp)\<lparr>duration := v\<rparr>\<rparr>"

definition setChargingSchedulePeriod ::
  "ChargingProfile \<Rightarrow> ChargingSchedulePeriod list \<Rightarrow> ChargingProfile" where
  "setChargingSchedulePeriod cp v =
     cp\<lparr>chargingSchedule := (chargingSchedule cp)\<lparr>chargingSchedulePeriod := v\<rparr>\<rparr>"

definition canProceedRecurringChargingProfile :: "ChargingProfile \<Rightarrow> bool" where
  "canProceedRecurringChargingProfile cp =
     (if chargingProfileKind cp = RECURRING \<and> recurrencyKind cp = None then False
      else if chargingProfileKind cp = RECURRING \<and> startSchedule (chargingSchedule cp) = None
      then False
      else True)"

text \<open>
  \<open>checkRecurringChargingProfileDuration\<close>. A duration that is a number is compared with
  the length of the interval; the comparison is false when that length is NaN.
\<close>

definition checkRecurringChargingProfileDuration ::
  "ChargingProfile \<Rightarrow> Date \<times> Date \<Rightarrow> ChargingProfile" where
  "checkRecurringChargingProfileDuration cp interval' =
     (case duration (chargingSchedule cp) of
        None \<Rightarrow> setDuration cp (differenceInSeconds (snd interval') (fst interval'))
      | Some d \<Rightarrow>
          (case differenceInSeconds (snd interval') (fst interval') of
             None \<Rightarrow> cp
           | Some intervalDuration \<Rightarrow>
               if d > intervalDuration then setDuration cp (Some intervalDuration) else cp))"

text \<open>
  \<open>prepareRecurringChargingProfile\<close> returns \<open>recurringIntervalTranslated\<close>; the profile
  it mutates is the second component. It is called only after
  \<open>canProceedRecurringChargingProfile\<close>, so with a \<open>startSchedule\<close>; without one every
  date it computes is invalid, no comparison holds and nothing is assigned but a
  duration that is NaN, which the model leaves undefined.
\<close>

definition prepareRecurringChargingProfile ::
  "TimeZone \<Rightarrow> ChargingProfile \<Rightarrow> Date \<Rightarrow> bool \<times> ChargingProfile" where
  "prepareRecurringChargingProfile timeZone cp currentDate =
     (case startSchedule (chargingSchedule cp) of
        None \<Rightarrow> (False, cp)
      | Some scheduleStart \<Rightarrow>
          (case recurrencyKind cp of
             Some DAILY \<Rightarrow>
               (let recurringInterval = (scheduleStart, addDays timeZone scheduleStart (Some 1));
                    cp1 = checkRecurringChargingProfileDuration cp recurringInterval
                in if \<not> isWithinInterval currentDate recurringInterval \<and>
                      isBefore (snd recurringInterval) currentDate
                   then (True, setStartSchedule cp1
                           (Some (addDays timeZone (fst recurringInterval)
                              (differenceInDays timeZone currentDate (fst recurringInterval)))))
                   else (False, cp1))
           | Some WEEKLY \<Rightarrow>
               (let recurringInterval = (scheduleStart, addWeeks timeZone scheduleStart (Some 1));
                    cp1 = checkRecurringChargingProfileDuration cp recurringInterval
                in if \<not> isWithinInterval currentDate recurringInterval \<and>
                      isBefore (snd recurringInterval) currentDate
                   then (True, setStartSchedule cp1
                           (Some (addWeeks timeZone (fst recurringInterval)
                              (differenceInWeeks timeZone currentDate (fst recurringInterval)))))
                   else (False, cp1))
           | None \<Rightarrow> (False, cp)))"

text \<open>\<open>prepareChargingProfileKind\<close>: its boolean result and the profile as mutated.\<close>

definition prepareChargingProfileKind ::
  "TimeZone \<Rightarrow> ConnectorStatus option \<Rightarrow> ChargingProfile \<Rightarrow> Date \<Rightarrow>
   bool \<times> ChargingProfile" where
  "prepareChargingProfileKind timeZone connectorStatus cp currentDate =
     (case chargingProfileKind cp of
        RECURRING \<Rightarrow>
          if \<not> canProceedRecurringChargingProfile cp then (False, cp)
          else (True, snd (prepareRecurringChargingProfile timeZone cp currentDate))
      | RELATIVE \<Rightarrow>
          (let cp1 = (if startSchedule (chargingSchedule cp) \<noteq> None
                      then setStartSchedule cp None else cp);
               cp2 = (case connectorStatus of
                        None \<Rightarrow> cp1
                      | Some c \<Rightarrow>
                          if transactionStarted c = Some True
                          then setStartSchedule cp1 (transactionStart c)
                          else cp1)
           in (True, cp2))
      | ABSOLUTE \<Rightarrow> (True, cp))"

text \<open>
  Modelled from the spec: \<open>isValidDate\<close> (utilities) is not among the sources. The spec
  (4.5, 3c) validates that \<open>validFrom\<close>, \<open>validTo\<close> and \<open>startSchedule\<close> are dates: a
  date that is present and not an Invalid Date.
\<close>

definition isValidDate :: "Date option \<Rightarrow> bool" where
  "isValidDate d = (case d of None \<Rightarrow> False | Some date \<Rightarrow> getTime date \<noteq> None)"

text \<open>\<open>Number.isSafeInteger\<close> on an integer.\<close>

definition isSafeInteger :: "int \<Rightarrow> bool" where
  "isSafeInteger n = (\<bar>n\<bar> \<le> 2 ^ 53 - 1)"

definition canProceedChargingProfile :: "ChargingProfile \<Rightarrow> Date \<Rightarrow> bool" where
  "canProceedChargingProfile cp currentDate =
     (if (isValidDate (validFrom cp) \<and> isBefore currentDate (the (validFrom cp))) \<or>
         (isValidDate (validTo cp) \<and> isAfter currentDate (the (validTo cp)))
      then False
      else if startSchedule (chargingSchedule cp) = None \<or> duration (chargingSchedule cp) = None
      then False
      else if \<not> isValidDate (startSchedule (chargingSchedule cp)) then False
      else if \<not> isSafeInteger (the (duration (chargingSchedule cp))) then False
      else True)"

subsection \<open>The limit of a list of charging profiles\<close>

text \<open>
  Modelled from the spec: \<open>isArraySorted\<close> (utilities) is not among the sources. The
  spec (4.5, 3d) has the periods sorted by \<open>startPeriod\<close> ascending; the function is
  applied to the period array and the comparison \<open>a.startPeriod - b.startPeriod\<close>, and
  holds when no element compares greater than its successor.
\<close>

fun isArraySorted :: "ChargingSchedulePeriod list \<Rightarrow> bool" where
  "isArraySorted [] = True"
| "isArraySorted [a] = True"
| "isArraySorted (a # b # rest) =
     (\<not> (startPeriod a - startPeriod b > 0) \<and> isArraySorted (b # rest))"

text \<open>
  The inner \<open>for\<close> loop over \<open>chargingSchedulePeriod.entries()\<close>, on the periods from the
  current index on; \<open>previous\<close> is \<open>previousChargingSchedulePeriod\<close>. The current index is
  the last one when no period follows, and \<open>chargingSchedulePeriod[index + 1]\<close> is the
  head of the rest. Reading \<open>limit\<close> of an undefined previous period is a \<open>TypeError\<close>.
  The comparison with the duration is false when the difference is NaN. \<open>Inr None\<close>: the
  loop ended without \<open>return\<close>.
\<close>

fun findSchedulePeriod ::
  "Date \<Rightarrow> int \<Rightarrow> Date \<Rightarrow> ChargingSchedulePeriod option \<Rightarrow> ChargingSchedulePeriod list \<Rightarrow>
   error + rat option" where
  "findSchedulePeriod scheduleStart scheduleDuration currentDate previous [] = Inr None"
| "findSchedulePeriod scheduleStart scheduleDuration currentDate previous (p # rest) =
     (if isAfter (addSeconds scheduleStart (startPeriod p)) currentDate
      then (case previous of
              None \<Rightarrow> Inl TypeError
            | Some q \<Rightarrow> Inr (Some (limit q)))
      else if rest = [] \<or>
              (rest \<noteq> [] \<and>
               (case differenceInSeconds (addSeconds scheduleStart (startPeriod (hd rest)))
                       scheduleStart of
                  None \<Rightarrow> False
                | Some seconds \<Rightarrow> seconds > scheduleDuration))
      then Inr (Some (limit p))
      else findSchedulePeriod scheduleStart scheduleDuration currentDate (Some p) rest)"

text \<open>
  The first part of the body of the loop over the profiles: the defaults for
  \<open>startSchedule\<close> and \<open>duration\<close>, \<open>prepareChargingProfileKind\<close> and
  \<open>canProceedChargingProfile\<close>. \<open>None\<close> is \<open>continue\<close>; otherwise the profile as mutated so
  far. A \<open>startSchedule\<close> of the model is a \<open>Date\<close> or undefined, which
  \<open>convertToDate\<close> leaves as it is. The default duration is
  \<open>differenceInSeconds(maxTime, startSchedule)\<close>; without a valid \<open>startSchedule\<close> it is
  NaN, which the model leaves undefined (such a profile is rejected before its duration
  is used).
\<close>

definition prepareChargingProfile ::
  "TimeZone \<Rightarrow> ConnectorStatus option \<Rightarrow> Date \<Rightarrow> ChargingProfile \<Rightarrow>
   ChargingProfile option" where
  "prepareChargingProfile timeZone connectorStatus currentDate chargingProfile =
     (let cp1 = (if startSchedule (chargingSchedule chargingProfile) = None
                 then setStartSchedule chargingProfile
                        (case connectorStatus of None \<Rightarrow> None | Some c \<Rightarrow> transactionStart c)
                 else chargingProfile);
          cp2 = (if duration (chargingSchedule cp1) = None
                 then setDuration cp1
                        (case startSchedule (chargingSchedule cp1) of
                           None \<Rightarrow> None
                         | Some s \<Rightarrow> differenceInSeconds (newDate maxTime) s)
                 else cp1);
          (proceed, cp3) = prepareChargingProfileKind timeZone connectorStatus cp2 currentDate
      in if \<not> proceed then None
         else if \<not> canProceedChargingProfile cp3 currentDate then None
         else Some cp3)"

text \<open>One iteration of the loop over the profiles: it continues, returns or throws.\<close>

datatype 'a iteration = Continue | Return 'a | Throw error

definition chargingProfileIteration ::
  "TimeZone \<Rightarrow> ConnectorStatus option \<Rightarrow> Date \<Rightarrow> ChargingProfile \<Rightarrow>
   (rat \<times> ChargingProfile) iteration" where
  "chargingProfileIteration timeZone connectorStatus currentDate chargingProfile =
     (case prepareChargingProfile timeZone connectorStatus currentDate chargingProfile of
        None \<Rightarrow> Continue
      | Some cp \<Rightarrow>
          (case (startSchedule (chargingSchedule cp), duration (chargingSchedule cp)) of
             (Some scheduleStart, Some scheduleDuration) \<Rightarrow>
               if isWithinInterval currentDate
                    (scheduleStart, addSeconds scheduleStart scheduleDuration)
               then
                 (if chargingSchedulePeriod (chargingSchedule cp) \<noteq> [] then
                    (let cp4 = (if \<not> isArraySorted (chargingSchedulePeriod (chargingSchedule cp))
                                then setChargingSchedulePeriod cp
                                       (sort_key startPeriod
                                          (chargingSchedulePeriod (chargingSchedule cp)))
                                else cp);
                         periods = chargingSchedulePeriod (chargingSchedule cp4)
                     in if startPeriod (hd periods) \<noteq> 0 then Continue
                        else if length periods = 1 then Return (limit (hd periods), cp4)
                        else (case findSchedulePeriod scheduleStart scheduleDuration
                                     currentDate None periods of
                                Inl e \<Rightarrow> Throw e
                              | Inr (Some l) \<Rightarrow> Return (l, cp4)
                              | Inr None \<Rightarrow> Continue))
                  else Continue)
               else Continue
           | _ \<Rightarrow> Continue))"

text \<open>
  \<open>getLimitFromChargingProfiles\<close>: the loop over the profiles, and the function itself.
  \<open>currentDate\<close> is the value of \<open>new Date()\<close> and \<open>timeZone\<close> the time zone of the
  process. The result pairs \<open>limit\<close> and \<open>chargingProfile\<close> of \<open>ChargingProfilesLimit\<close>;
  \<open>Inr None\<close> is \<open>undefined\<close>.
\<close>

fun getLimitFromChargingProfilesLoop ::
  "TimeZone \<Rightarrow> ConnectorStatus option \<Rightarrow> Date \<Rightarrow> ChargingProfile list \<Rightarrow>
   error + (rat \<times> ChargingProfile) option" where
  "getLimitFromChargingProfilesLoop timeZone connectorStatus currentDate [] = Inr None"
| "getLimitFromChargingProfilesLoop timeZone connectorStatus currentDate (chargingProfile # rest) =
     (case chargingProfileIteration timeZone connectorStatus currentDate chargingProfile of
        Continue \<Rightarrow> getLimitFromChargingProfilesLoop timeZone connectorStatus currentDate rest
      | Return r \<Rightarrow> Inr (Some r)
      | Throw e \<Rightarrow> Inl e)"

definition getLimitFromChargingProfiles ::
  "TimeZone \<Rightarrow> ChargingStation \<Rightarrow> int \<Rightarrow> Date \<Rightarrow> ChargingProfile list \<Rightarrow>
   error + (rat \<times> ChargingProfile) option" where
  "getLimitFromChargingProfiles timeZone chargingStation cid currentDate profiles =
     getLimitFromChargingProfilesLoop timeZone (getConnectorStatus chargingStation cid)
       currentDate profiles"

subsection \<open>The power limit of a connector\<close>

text \<open>
  \<open>getConnectorChargingProfiles\<close>: the value returned (a clone). \<open>Array.sort\<close> is stable;
  the comparison \<open>b.stackLevel - a.stackLevel\<close> orders by stack level, highest first.
  The function also leaves the two arrays of the station sorted, which no function
  here reads.
\<close>

definition connectorProfiles :: "ChargingStation \<Rightarrow> int \<Rightarrow> ChargingProfile list" where
  "connectorProfiles st cid =
     (case getConnectorStatus st cid of
        None \<Rightarrow> []
      | Some c \<Rightarrow> (case chargingProfiles c of None \<Rightarrow> [] | Some ps \<Rightarrow> ps))"

definition getConnectorChargingProfiles :: "ChargingStation \<Rightarrow> int \<Rightarrow> ChargingProfile list" where
  "getConnectorChargingProfiles st cid =
     sort_key (\<lambda>p. - stackLevel p) (connectorProfiles st cid) @
     sort_key (\<lambda>p. - stackLevel p) (connectorProfiles st 0)"








text \<open>Concrete profiles and stations used to evaluate the resolver.\<close>

definition period :: "int \<Rightarrow> rat \<Rightarrow> ChargingSchedulePeriod" where
  "period s l = \<lparr>startPeriod = s, limit = l\<rparr>"

definition profileOf ::
  "int \<Rightarrow> ChargingProfileKindType \<Rightarrow> RecurrencyKindType option \<Rightarrow> Date option \<Rightarrow> int option \<Rightarrow>
   ChargingRateUnitType \<Rightarrow> ChargingSchedulePeriod list \<Rightarrow> ChargingProfile" where
  "profileOf level kind recurrency scheduleStart scheduleDuration unit periods =
     \<lparr>chargingProfileId = level, stackLevel = level, chargingProfileKind = kind,
      recurrencyKind = recurrency, validFrom = None, validTo = None,
      chargingSchedule = \<lparr>startSchedule = scheduleStart, duration = scheduleDuration,
        chargingRateUnit = unit, chargingSchedulePeriod = periods\<rparr>\<rparr>"

text \<open>The time zone UTC, and a connector with a transaction that started at a given date.\<close>

definition utc :: TimeZone where
  "utc = fixedOffset 0"

definition chargingConnector :: "Date \<Rightarrow> ChargingProfile list \<Rightarrow> ConnectorStatus" where
  "chargingConnector since profiles =
     connector0\<lparr>status := Some Charging, transactionStarted := Some True,
       transactionStart := Some since, chargingProfiles := Some profiles\<rparr>"

definition unsortedProfile :: ChargingProfile where
  "unsortedProfile =
     profileOf 1 ABSOLUTE None (Some (DateOf 0)) (Some 3600) AMPERE
       [period 7 2, period 0 16, period 6 3, period 4 9]"




text \<open>
  A relative profile without a duration: \<open>relativeProfile\<close> carries a \<open>startSchedule\<close>
  (2024-01-01T00:00Z), \<open>relativeProfileOfTransaction\<close> carries none.
\<close>

definition relativeProfile :: ChargingProfile where
  "relativeProfile =
     profileOf 1 RELATIVE None (Some (DateOf 1704067200000)) None AMPERE [period 0 16]"

definition relativeProfileOfTransaction :: ChargingProfile where
  "relativeProfileOfTransaction = profileOf 1 RELATIVE None None None AMPERE [period 0 16]"

text \<open>
  An absolute profile of one hour from the epoch whose second period starts
  9000000000000 s after \<open>startSchedule\<close>, beyond the latest date.
\<close>

definition farPeriodProfile :: ChargingProfile where
  "farPeriodProfile =
     profileOf 1 ABSOLUTE None (Some (DateOf 0)) (Some 3600) AMPERE
       [period 0 16, period 9000000000000 2]"


text \<open>
  A station whose connector 1 is in a transaction that started on 2024-01-22T12:00Z
  (1705924800000); 2024-01-22T12:30Z is 1705926600000 and 2024-01-22T13:00Z is
  1705928400000.
\<close>

definition transactionStation :: ChargingStation where
  "transactionStation =
     stationOf [(0, connector0), (1, chargingConnector (DateOf 1705924800000) [])]"


section \<open>Theorems\<close>

subsection \<open>C4: boot connector status resolution\<close>

text \<open>
  C4 as stated fails: with no persisted status, a template \<open>bootStatus\<close> of
  \<open>Charging\<close> and an inoperative station (connector 0 is \<open>Inoperative\<close>),
  \<open>getBootConnectorStatus\<close> returns \<open>Unavailable\<close>, not the boot status: the
  unavailability test is the first branch of the code.
\<close>

theorem C4_bootStatus_priority_counterexample:
  "status (connector0\<lparr>bootStatus := Some Charging\<rparr>) = None \<and>
   bootStatus (connector0\<lparr>bootStatus := Some Charging\<rparr>) = Some Charging \<and>
   getBootConnectorStatus
     (stationOf [(0, connector0\<lparr>availability := Some Inoperative\<rparr>),
                 (1, connector0\<lparr>bootStatus := Some Charging\<rparr>)])
     1 (connector0\<lparr>bootStatus := Some Charging\<rparr>) = Unavailable \<and>
   getBootConnectorStatus
     (stationOf [(0, connector0\<lparr>availability := Some Inoperative\<rparr>),
                 (1, connector0\<lparr>bootStatus := Some Charging\<rparr>)])
     1 (connector0\<lparr>bootStatus := Some Charging\<rparr>) \<noteq> Charging"
  by (simp add: getBootConnectorStatus_def isChargingStationAvailable_def
      getConnectorStatus_def hasEvses_def stationOf_def connector0_def)

text \<open>
  C4 (amended): for every station, connector id and connector status,
  \<open>getBootConnectorStatus\<close> returns the persisted status when one exists; otherwise
  \<open>Unavailable\<close> when the station or the connector is not available; otherwise the
  template-declared \<open>bootStatus\<close> when one exists; otherwise \<open>Available\<close>. A persisted
  status takes priority over everything, and the unavailability check takes priority
  over \<open>bootStatus\<close>.
\<close>

theorem C4_getBootConnectorStatus_resolution:
  "getBootConnectorStatus st cid cs =
     (case status cs of
        Some s \<Rightarrow> s
      | None \<Rightarrow>
          if isChargingStationAvailable st \<and> isConnectorAvailable st cid
          then (case bootStatus cs of Some b \<Rightarrow> b | None \<Rightarrow> Available)
          else Unavailable)"
  by (auto simp: getBootConnectorStatus_def split: option.splits)

theorem C4_getBootConnectorStatus_resolution_witness:
  "getBootConnectorStatus
     (stationOf [(0, connector0), (1, connector0\<lparr>bootStatus := Some Preparing\<rparr>)])
     1 (connector0\<lparr>bootStatus := Some Preparing\<rparr>) = Preparing"
  using C4_getBootConnectorStatus_resolution
    [of "stationOf [(0, connector0), (1, connector0\<lparr>bootStatus := Some Preparing\<rparr>)]"
        1 "connector0\<lparr>bootStatus := Some Preparing\<rparr>"]
  by (simp add: isChargingStationAvailable_def isConnectorAvailable_def
      getConnectorStatus_def hasEvses_def stationOf_def connector0_def)

subsection \<open>Mutating a connector in place\<close>

lemma map_of_mutateEntry:
  "map_of (mutateEntry k f kvs) k' =
     (if k' = k then map_option f (map_of kvs k) else map_of kvs k')"
  by (induction kvs) auto

lemma length_mutateEntry: "length (mutateEntry k f kvs) = length kvs"
  by (induction kvs) auto

lemma length_mutateConnectorEvses: "length (mutateConnectorEvses cid f es) = length es"
  by (induction es) (auto split: option.splits)

lemma getConnectorStatusEvses_mutate:
  "getConnectorStatusEvses (mutateConnectorEvses cid f es) cid' =
     (if cid' = cid then map_option f (getConnectorStatusEvses es cid)
      else getConnectorStatusEvses es cid')"
  by (induction es) (auto simp: map_of_mutateEntry split: option.splits)

lemma mutateEntry_Nil_iff: "mutateEntry k f kvs = [] \<longleftrightarrow> kvs = []"
  by (cases kvs) (auto split: if_splits)

lemma mutateConnectorEvses_Nil_iff: "mutateConnectorEvses cid f es = [] \<longleftrightarrow> es = []"
  by (cases es) (auto split: option.splits)

lemma hasEvses_mutate: "hasEvses (mutateConnectorStatus st cid f) = hasEvses st"
  by (simp add: hasEvses_def mutateConnectorStatus_def mutateEntry_Nil_iff
      mutateConnectorEvses_Nil_iff)

lemma getConnectorStatus_mutate:
  "getConnectorStatus (mutateConnectorStatus st cid f) cid' =
     (if cid' = cid then map_option f (getConnectorStatus st cid)
      else getConnectorStatus st cid')"
  unfolding getConnectorStatus_def hasEvses_mutate
  by (simp add: mutateConnectorStatus_def getConnectorStatusEvses_mutate map_of_mutateEntry)

lemma requestsSent_mutate:
  "requestsSent (mutateConnectorStatus st cid f) = requestsSent st"
  by (simp add: mutateConnectorStatus_def)

lemma getConnectorStatus_requestsSent_update:
  "getConnectorStatus (st\<lparr>requestsSent := rs\<rparr>) cid = getConnectorStatus st cid"
  by (simp add: getConnectorStatus_def hasEvses_def)

lemma deleteReservation_found:
  assumes "getConnectorStatus st cid = Some c"
  shows "deleteReservation st cid =
           (mutateConnectorStatus st cid (\<lambda>c. c\<lparr>reservation := None\<rparr>), None)"
  using assms by (simp add: deleteReservation_def)

lemma sendAndSetConnectorStatus_found:
  assumes "getConnectorStatus st cid = Some c"
  shows "sendAndSetConnectorStatus st cid s send =
           (mutateConnectorStatus
              (if send then st\<lparr>requestsSent := requestsSent st @ [StatusNotification cid s]\<rparr>
               else st)
              cid (\<lambda>c. c\<lparr>status := Some s\<rparr>), None)"
  using assms
  by (simp add: sendAndSetConnectorStatus_def getConnectorStatus_requestsSent_update)

lemma stationInfo_mutate:
  "stationInfo (mutateConnectorStatus st cid f) = stationInfo st"
  "powerDivider (mutateConnectorStatus st cid f) = powerDivider st"
  by (simp_all add: mutateConnectorStatus_def)

lemma deleteReservation_effect:
  assumes "getConnectorStatus st cid = Some c"
  shows "snd (deleteReservation st cid) = None"
    and "requestsSent (fst (deleteReservation st cid)) = requestsSent st"
    and "getConnectorStatus (fst (deleteReservation st cid)) cid' =
           (if cid' = cid then Some (c\<lparr>reservation := None\<rparr>)
            else getConnectorStatus st cid')"
  using assms
  by (simp_all add: deleteReservation_found [OF assms] requestsSent_mutate
      getConnectorStatus_mutate)

lemma sendAvailableAndDeleteReservation_effect:
  assumes "getConnectorStatus st (connectorId r) = Some c"
  shows "snd (sendAvailableAndDeleteReservation st r) = None"
    and "requestsSent (fst (sendAvailableAndDeleteReservation st r)) =
           requestsSent st @
           (if connectorId r \<noteq> 0 then [StatusNotification (connectorId r) Available] else [])"
    and "getConnectorStatus (fst (sendAvailableAndDeleteReservation st r)) cid' =
           (if cid' = connectorId r
            then Some (c\<lparr>status := Some Available, reservation := None\<rparr>)
            else getConnectorStatus st cid')"
proof -
  let ?st0 = "if connectorId r \<noteq> 0
              then st\<lparr>requestsSent := requestsSent st @
                       [StatusNotification (connectorId r) Available]\<rparr>
              else st"
  let ?st1 = "mutateConnectorStatus ?st0 (connectorId r) (\<lambda>c. c\<lparr>status := Some Available\<rparr>)"
  have s: "sendAndSetConnectorStatus st (connectorId r) Available (connectorId r \<noteq> 0) =
             (?st1, None)"
    by (rule sendAndSetConnectorStatus_found [OF assms])
  have g0: "getConnectorStatus ?st0 cid'' = getConnectorStatus st cid''" for cid''
    by (simp add: getConnectorStatus_requestsSent_update)
  have g1: "getConnectorStatus ?st1 (connectorId r) = Some (c\<lparr>status := Some Available\<rparr>)"
    by (simp add: getConnectorStatus_mutate g0 assms)
  have e: "sendAvailableAndDeleteReservation st r = deleteReservation ?st1 (connectorId r)"
    by (simp only: sendAvailableAndDeleteReservation_def s prod.case option.case)
  show "snd (sendAvailableAndDeleteReservation st r) = None"
    by (simp only: e deleteReservation_effect(1) [OF g1])
  show "requestsSent (fst (sendAvailableAndDeleteReservation st r)) =
           requestsSent st @
           (if connectorId r \<noteq> 0 then [StatusNotification (connectorId r) Available] else [])"
    by (simp add: e deleteReservation_effect(2) [OF g1] requestsSent_mutate)
  show "getConnectorStatus (fst (sendAvailableAndDeleteReservation st r)) cid' =
           (if cid' = connectorId r
            then Some (c\<lparr>status := Some Available, reservation := None\<rparr>)
            else getConnectorStatus st cid')"
    by (simp add: e deleteReservation_effect(3) [OF g1] getConnectorStatus_mutate g0)
qed

subsection \<open>C7: effects of removeReservation\<close>

text \<open>
  C7: for every reservation \<open>r\<close> whose connector exists, \<open>removeReservation(r, reason)\<close>
  with reason CONNECTOR_STATE_CHANGED or TRANSACTION_STARTED only deletes the connector's
  \<open>reservation\<close> field and sends nothing; with reason RESERVATION_CANCELED,
  REPLACE_EXISTING or EXPIRED it sets the connector status to \<open>Available\<close>, sends a
  StatusNotification(Available) unless the reservation's connectorId is 0, and deletes
  the \<open>reservation\<close> field. In both cases no error is thrown and every other connector
  is left as it was.
\<close>

theorem C7_removeReservation_effects:
  assumes "getConnectorStatus st (connectorId r) = Some c"
  shows "(reason = CONNECTOR_STATE_CHANGED \<or> reason = TRANSACTION_STARTED \<longrightarrow>
            snd (removeReservation st r reason) = None \<and>
            requestsSent (fst (removeReservation st r reason)) = requestsSent st \<and>
            getConnectorStatus (fst (removeReservation st r reason)) (connectorId r) =
              Some (c\<lparr>reservation := None\<rparr>) \<and>
            (\<forall>cid'. cid' \<noteq> connectorId r \<longrightarrow>
               getConnectorStatus (fst (removeReservation st r reason)) cid' =
               getConnectorStatus st cid')) \<and>
         (reason = RESERVATION_CANCELED \<or> reason = REPLACE_EXISTING \<or> reason = EXPIRED \<longrightarrow>
            snd (removeReservation st r reason) = None \<and>
            requestsSent (fst (removeReservation st r reason)) =
              requestsSent st @
              (if connectorId r \<noteq> 0 then [StatusNotification (connectorId r) Available]
               else []) \<and>
            getConnectorStatus (fst (removeReservation st r reason)) (connectorId r) =
              Some (c\<lparr>status := Some Available, reservation := None\<rparr>) \<and>
            (\<forall>cid'. cid' \<noteq> connectorId r \<longrightarrow>
               getConnectorStatus (fst (removeReservation st r reason)) cid' =
               getConnectorStatus st cid'))"
proof (intro conjI impI)
  assume "reason = CONNECTOR_STATE_CHANGED \<or> reason = TRANSACTION_STARTED"
  then have e: "removeReservation st r reason = deleteReservation st (connectorId r)"
    by (auto simp: removeReservation_def)
  show "snd (removeReservation st r reason) = None"
    by (simp only: e deleteReservation_effect(1) [OF assms])
  show "requestsSent (fst (removeReservation st r reason)) = requestsSent st"
    by (simp only: e deleteReservation_effect(2) [OF assms])
  show "getConnectorStatus (fst (removeReservation st r reason)) (connectorId r) =
          Some (c\<lparr>reservation := None\<rparr>)"
    by (simp add: e deleteReservation_effect(3) [OF assms])
  show "\<forall>cid'. cid' \<noteq> connectorId r \<longrightarrow>
          getConnectorStatus (fst (removeReservation st r reason)) cid' =
          getConnectorStatus st cid'"
    by (simp add: e deleteReservation_effect(3) [OF assms])
next
  assume "reason = RESERVATION_CANCELED \<or> reason = REPLACE_EXISTING \<or> reason = EXPIRED"
  then have e: "removeReservation st r reason = sendAvailableAndDeleteReservation st r"
    by (auto simp: removeReservation_def)
  show "snd (removeReservation st r reason) = None"
    by (simp only: e sendAvailableAndDeleteReservation_effect(1) [OF assms])
  show "requestsSent (fst (removeReservation st r reason)) =
          requestsSent st @
          (if connectorId r \<noteq> 0 then [StatusNotification (connectorId r) Available] else [])"
    by (simp only: e sendAvailableAndDeleteReservation_effect(2) [OF assms])
  show "getConnectorStatus (fst (removeReservation st r reason)) (connectorId r) =
          Some (c\<lparr>status := Some Available, reservation := None\<rparr>)"
    by (simp add: e sendAvailableAndDeleteReservation_effect(3) [OF assms])
  show "\<forall>cid'. cid' \<noteq> connectorId r \<longrightarrow>
          getConnectorStatus (fst (removeReservation st r reason)) cid' =
          getConnectorStatus st cid'"
    by (simp add: e sendAvailableAndDeleteReservation_effect(3) [OF assms])
qed

lemma reservation7_connectorId: "connectorId reservation7 = 1"
  by (simp add: reservation7_def)

lemma reservedStation_connector1:
  "getConnectorStatus reservedStation (connectorId reservation7) =
     Some (connector0\<lparr>status := Some Reserved, reservation := Some reservation7\<rparr>)"
  by (simp add: getConnectorStatus_def hasEvses_def reservedStation_def stationOf_def
      reservation7_def)

theorem C7_removeReservation_effects_witness:
  "getConnectorStatus reservedStation (connectorId reservation7) =
     Some (connector0\<lparr>status := Some Reserved, reservation := Some reservation7\<rparr>) \<and>
   requestsSent (fst (removeReservation reservedStation reservation7 TRANSACTION_STARTED)) = [] \<and>
   getConnectorStatus (fst (removeReservation reservedStation reservation7 TRANSACTION_STARTED)) 1
     = Some (connector0\<lparr>status := Some Reserved\<rparr>) \<and>
   requestsSent (fst (removeReservation reservedStation reservation7 EXPIRED)) =
     [StatusNotification 1 Available] \<and>
   getConnectorStatus (fst (removeReservation reservedStation reservation7 EXPIRED)) 1
     = Some (connector0\<lparr>status := Some Available\<rparr>)"
  using C7_removeReservation_effects [OF reservedStation_connector1, of TRANSACTION_STARTED]
    C7_removeReservation_effects [OF reservedStation_connector1, of EXPIRED]
    reservedStation_connector1
  by (simp add: reservation7_def reservedStation_def stationOf_def connector0_def)

subsection \<open>C10: removeReservation with an unknown reason\<close>

text \<open>
  C10: \<open>removeReservation\<close> with a reason outside the five known
  \<open>ReservationTerminationReason\<close> cases throws a \<open>BaseError\<close> and leaves the station, and
  so the connector's \<open>reservation\<close> field, unchanged.
\<close>

theorem C10_removeReservation_unknown_reason:
  "removeReservation st r (UnknownReason v) =
     (st, Some (BaseError (''Unknown reservation termination reason '' @ [CHR 0x27] @ v
                           @ [CHR 0x27]))) \<and>
   getConnectorStatus (fst (removeReservation st r (UnknownReason v))) (connectorId r) =
     getConnectorStatus st (connectorId r)"
  by (simp add: removeReservation_def)

theorem C10_removeReservation_unknown_reason_witness:
  "snd (removeReservation reservedStation reservation7 (UnknownReason ''Rebooted'')) =
     Some (BaseError (''Unknown reservation termination reason '' @ [CHR 0x27] @ ''Rebooted''
                      @ [CHR 0x27])) \<and>
   fst (removeReservation reservedStation reservation7 (UnknownReason ''Rebooted'')) =
     reservedStation \<and>
   getConnectorStatus
     (fst (removeReservation reservedStation reservation7 (UnknownReason ''Rebooted''))) 1 =
     Some (connector0\<lparr>status := Some Reserved, reservation := Some reservation7\<rparr>)"
  using C10_removeReservation_unknown_reason [of reservedStation reservation7 "''Rebooted''"]
    reservedStation_connector1 reservation7_connectorId
  by simp

subsection \<open>C6: isConnectorReservable\<close>

text \<open>
  C6 as stated fails. Called with the reservation id alone, the function answers
  \<open>true\<close> on a station that has no free reservable connector; and a reservation that
  exists under the id but has expired does not prevent the answer \<open>true\<close>.
\<close>

theorem C6_isConnectorReservable_counterexample:
  "isConnectorReservable busyStation 0 1 5 None None \<and>
   getReservationBy busyStation (ByReservationId 5) = None \<and>
   \<not> 0 < stationNumberOfReservableConnectors busyStation \<and>
   isConnectorReservable reservedStation 2000 3 7 (Some ''NEW'') (Some 2) \<and>
   getReservationBy reservedStation (ByReservationId 7) = Some reservation7"
  by (simp add: isConnectorReservable_def getReservationBy_def hasEvses_def
      stationNumberOfReservableConnectors_def getNumberOfReservationsOnConnectorZero_def
      busyStation_def reservedStation_def reservation7_def stationOf_def connector0_def
      hasReservationExpired_def)

text \<open>
  C6 (amended): \<open>isConnectorReservable(reservationId, idTag?, connectorId?)\<close> is true if
  and only if the reservation found under \<open>reservationId\<close> is absent or expired and
  either the call has exactly one argument, or it has more than one and: the reservation
  found under \<open>idTag\<close> (when \<open>idTag\<close> is given) is absent or expired, \<open>connectorId\<close> is
  not given or greater than 0, and the number of free reservable connectors is greater
  than 0.
\<close>

theorem C6_isConnectorReservable_characterisation:
  "isConnectorReservable st now n rid t c \<longleftrightarrow>
     (case getReservationBy st (ByReservationId rid) of
        None \<Rightarrow> True
      | Some r \<Rightarrow> hasReservationExpired r now) \<and>
     (n = 1 \<or>
      (n > 1 \<and>
       (case t of
          None \<Rightarrow> True
        | Some tag \<Rightarrow>
            (case getReservationBy st (ByIdTag tag) of
               None \<Rightarrow> True
             | Some r \<Rightarrow> hasReservationExpired r now)) \<and>
       (case c of None \<Rightarrow> True | Some k \<Rightarrow> k > 0) \<and>
       stationNumberOfReservableConnectors st > 0))"
  by (auto simp: isConnectorReservable_def Let_def split: option.splits)

theorem C6_isConnectorReservable_characterisation_witness:
  "isConnectorReservable reservedStation 500 3 8 (Some ''NEW'') (Some 2) \<and>
   \<not> isConnectorReservable reservedStation 500 3 7 (Some ''NEW'') (Some 2) \<and>
   \<not> isConnectorReservable reservedStation 500 3 8 (Some ''TAG'') (Some 2) \<and>
   \<not> isConnectorReservable reservedStation 500 3 8 (Some ''NEW'') (Some 0) \<and>
   \<not> isConnectorReservable busyStation 500 2 8 (Some ''NEW'') None \<and>
   isConnectorReservable busyStation 500 1 8 None None"
  using C6_isConnectorReservable_characterisation [of reservedStation 500 3 8 "Some ''NEW''" "Some 2"]
  by (simp add: isConnectorReservable_def getReservationBy_def hasEvses_def
      stationNumberOfReservableConnectors_def getNumberOfReservationsOnConnectorZero_def
      busyStation_def reservedStation_def reservation7_def stationOf_def connector0_def
      hasReservationExpired_def)

subsection \<open>C9: messageSize in addRequestStatistic\<close>







subsection \<open>C8: lifecycle flags\<close>

lemma start_invariant:
  assumes "\<not> (started s \<and> starting s)" and "stopping s \<longrightarrow> started s"
  shows "\<not> (started (start oc Returns s) \<and> starting (start oc Returns s))"
    and "stopping (start oc Returns s) \<longrightarrow> started (start oc Returns s)"
  using assms by (auto simp: start_def Let_def split: outcome.splits)

lemma stop_enter_invariant:
  assumes "\<not> (started s \<and> starting s)" and "stopping s \<longrightarrow> started s"
  shows "\<not> (started (fst (stop_enter s)) \<and> starting (fst (stop_enter s)))"
    and "stopping (fst (stop_enter s)) \<longrightarrow> started (fst (stop_enter s))"
  using assms by (auto simp: stop_enter_def)

lemma stop_resume_invariant:
  assumes "\<not> (started s \<and> starting s)" and "stopping s \<longrightarrow> started s"
  shows "\<not> (started (stop_resume oc Returns s) \<and> starting (stop_resume oc Returns s))"
    and "stopping (stop_resume oc Returns s) \<longrightarrow> started (stop_resume oc Returns s)"
  using assms by (auto simp: stop_resume_def Let_def split: outcome.splits)

lemma reset_tail_invariant:
  assumes "\<not> (started s \<and> starting s)" and "stopping s \<longrightarrow> started s"
  shows "\<not> (started (reset_tail oc1 oc2 Returns s) \<and> starting (reset_tail oc1 oc2 Returns s))"
    and "stopping (reset_tail oc1 oc2 Returns s) \<longrightarrow> started (reset_tail oc1 oc2 Returns s)"
  using start_invariant [OF assms, of oc2] assms
  by (auto simp: reset_tail_def split: outcome.splits)

lemma stop_invariant:
  assumes "\<not> (started s \<and> starting s)" and "stopping s \<longrightarrow> started s"
  shows "\<not> (started (stop oc Returns s) \<and> starting (stop oc Returns s))"
    and "stopping (stop oc Returns s) \<longrightarrow> started (stop oc Returns s)"
proof -
  obtain s1 b where e: "stop_enter s = (s1, b)" by (cases "stop_enter s")
  have i1: "\<not> (started s1 \<and> starting s1)" and i2: "stopping s1 \<longrightarrow> started s1"
    using stop_enter_invariant [OF assms] e by simp_all
  show "\<not> (started (stop oc Returns s) \<and> starting (stop oc Returns s))"
    using stop_resume_invariant(1) [OF i1 i2, of oc] i1 e by (cases b) (simp_all add: stop_def)
  show "stopping (stop oc Returns s) \<longrightarrow> started (stop oc Returns s)"
    using stop_resume_invariant(2) [OF i1 i2, of oc] i2 e by (cases b) (simp_all add: stop_def)
qed

lemma reset_invariant:
  assumes "\<not> (started s \<and> starting s)" and "stopping s \<longrightarrow> started s"
  shows "\<not> (started (reset oc1 Returns oc2 oc3 Returns s) \<and>
            starting (reset oc1 Returns oc2 oc3 Returns s))"
    and "stopping (reset oc1 Returns oc2 oc3 Returns s) \<longrightarrow>
         started (reset oc1 Returns oc2 oc3 Returns s)"
proof -
  obtain s1 b where e: "stop_enter s = (s1, b)" by (cases "stop_enter s")
  have i1: "\<not> (started s1 \<and> starting s1)" and i2: "stopping s1 \<longrightarrow> started s1"
    using stop_enter_invariant [OF assms] e by simp_all
  have j1: "\<not> (started (stop_resume oc Returns s1) \<and> starting (stop_resume oc Returns s1))"
    and j2: "stopping (stop_resume oc Returns s1) \<longrightarrow> started (stop_resume oc Returns s1)" for oc
    using stop_resume_invariant [OF i1 i2] by simp_all
  show "\<not> (started (reset oc1 Returns oc2 oc3 Returns s) \<and>
            starting (reset oc1 Returns oc2 oc3 Returns s))"
    using reset_tail_invariant(1) [OF j1 [of Returns] j2 [of Returns], of oc2 oc3]
      reset_tail_invariant(1) [OF i1 i2, of oc2 oc3] j1 [of Throws] e
    by (cases b; cases oc1) (simp_all add: reset_def)
  show "stopping (reset oc1 Returns oc2 oc3 Returns s) \<longrightarrow>
        started (reset oc1 Returns oc2 oc3 Returns s)"
    using reset_tail_invariant(2) [OF j1 [of Returns] j2 [of Returns], of oc2 oc3]
      reset_tail_invariant(2) [OF i1 i2, of oc2 oc3] j2 [of Throws] e
    by (cases b; cases oc1) (simp_all add: reset_def)
qed

lemma lifecycleStep_invariant:
  assumes "\<not> (started (fst st) \<and> starting (fst st))" and "stopping (fst st) \<longrightarrow> started (fst st)"
    and "emitReturns ev"
  shows "\<not> (started (fst (lifecycleStep st ev)) \<and> starting (fst (lifecycleStep st ev))) \<and>
         (stopping (fst (lifecycleStep st ev)) \<longrightarrow> started (fst (lifecycleStep st ev)))"
proof (cases st)
  case (Pair s k)
  have a: "\<not> (started s \<and> starting s)" and b: "stopping s \<longrightarrow> started s"
    using assms Pair by simp_all
  show ?thesis
  proof (cases ev)
    case (CallStart ows es)
    then show ?thesis using start_invariant [OF a b, of ows] assms(3) Pair by simp
  next
    case (CallStop sms est)
    then show ?thesis using stop_invariant [OF a b, of sms] assms(3) Pair by simp
  next
    case (CallReset sms est ini ows es)
    then show ?thesis using reset_invariant [OF a b, of sms ini ows] assms(3) Pair by simp
  next
    case EnterStop
    then show ?thesis
      using stop_enter_invariant [OF a b] Pair
      by (cases "stop_enter s"; cases "snd (stop_enter s)") auto
  next
    case (ResumeStop sms est)
    then show ?thesis using stop_resume_invariant [OF a b, of sms] a b assms(3) Pair by simp
  next
    case (ResetTail ini ows es)
    then show ?thesis using reset_tail_invariant [OF a b, of ini ows] assms(3) Pair by simp
  qed
qed

lemma foldl_lifecycleStep_invariant:
  assumes "\<not> (started (fst st) \<and> starting (fst st))" and "stopping (fst st) \<longrightarrow> started (fst st)"
    and "list_all emitReturns events"
  shows "\<not> (started (fst (foldl lifecycleStep st events)) \<and>
            starting (fst (foldl lifecycleStep st events))) \<and>
         (stopping (fst (foldl lifecycleStep st events)) \<longrightarrow>
            started (fst (foldl lifecycleStep st events)))"
  using assms
proof (induction events arbitrary: st)
  case Nil
  then show ?case by simp
next
  case (Cons ev events)
  have "emitReturns ev" and rest: "list_all emitReturns events"
    using Cons.prems(3) by simp_all
  then have "\<not> (started (fst (lifecycleStep st ev)) \<and> starting (fst (lifecycleStep st ev)))"
    and "stopping (fst (lifecycleStep st ev)) \<longrightarrow> started (fst (lifecycleStep st ev))"
    using lifecycleStep_invariant [OF Cons.prems(1,2)] by simp_all
  from Cons.IH [OF this rest] show ?case by simp
qed

text \<open>
  C8, as stated, fails: an exception thrown by a listener of the \<open>started\<close> event leaves
  \<open>start\<close> between \<open>started = true\<close> and \<open>starting = false\<close>, so that \<open>started\<close> and
  \<open>starting\<close> are both true once the call has ended; an exception thrown by
  \<open>saveConfiguration\<close> or by a listener of the \<open>stopped\<close> event leaves \<open>stop\<close> between
  \<open>started = false\<close> and \<open>stopping = false\<close>, so that \<open>stopping\<close> holds without
  \<open>started\<close>.
\<close>

theorem C8_exception_at_emit_counterexample:
  "fst (lifecycleRun [CallStart Returns Throws]) =
     \<lparr>started = True, starting = True, stopping = False\<rparr> \<and>
   started (fst (lifecycleRun [CallStart Returns Throws])) \<and>
   starting (fst (lifecycleRun [CallStart Returns Throws])) \<and>
   fst (lifecycleRun [CallStart Returns Returns, CallStop Returns Throws]) =
     \<lparr>started = False, starting = False, stopping = True\<rparr> \<and>
   stopping (fst (lifecycleRun [CallStart Returns Returns, CallStop Returns Throws])) \<and>
   \<not> started (fst (lifecycleRun [CallStart Returns Returns, CallStop Returns Throws]))"
  by (simp add: lifecycleRun_def start_def stop_def stop_enter_def stop_resume_def
      ChargingStation_constructor_def)

text \<open>
  C8, amended: in every station state reached from the constructor by a sequence of
  lifecycle events (whole or interleaved \<open>start\<close>, \<open>stop\<close> and \<open>reset\<close> calls, each ending
  normally or by an exception of \<open>openWSConnection\<close>, \<open>stopMessageSequence\<close> or
  \<open>initialize\<close>) in which \<open>emit(started)\<close>, \<open>saveConfiguration()\<close> and \<open>emit(stopped)\<close>
  return, observed between events, \<open>started\<close> and \<open>starting\<close> are never both true, and
  \<open>stopping\<close> implies \<open>started\<close>.
\<close>

theorem C8_lifecycle_flags_invariant:
  assumes "list_all emitReturns events"
  shows "\<not> (started (fst (lifecycleRun events)) \<and> starting (fst (lifecycleRun events))) \<and>
         (stopping (fst (lifecycleRun events)) \<longrightarrow> started (fst (lifecycleRun events)))"
  unfolding lifecycleRun_def
  by (rule foldl_lifecycleStep_invariant) (simp_all add: ChargingStation_constructor_def assms)

theorem C8_lifecycle_flags_invariant_witness:
  "list_all emitReturns [CallStart Returns Returns, EnterStop] \<and>
   fst (lifecycleRun [CallStart Returns Returns, EnterStop]) =
     \<lparr>started = True, starting = False, stopping = True\<rparr> \<and>
   stopping (fst (lifecycleRun [CallStart Returns Returns, EnterStop])) \<and>
   started (fst (lifecycleRun [CallStart Returns Returns, EnterStop])) \<and>
   \<not> starting (fst (lifecycleRun [CallStart Returns Returns, EnterStop])) \<and>
   fst (lifecycleRun [CallStart Returns Returns, EnterStop, ResumeStop Returns Returns,
                      CallStart Throws Returns]) =
     \<lparr>started = False, starting = True, stopping = False\<rparr>"
  using C8_lifecycle_flags_invariant [of "[CallStart Returns Returns, EnterStop]"]
  by (simp add: lifecycleRun_def start_def stop_enter_def stop_resume_def
      ChargingStation_constructor_def)

subsection \<open>C5: the registration loop\<close>

lemma isRegistered_iff:
  "isRegistered s \<longleftrightarrow>
     (\<exists>r. bootNotificationResponse s = Some r \<and>
          (registrationStatus r = Some ACCEPTED \<or> registrationStatus r = Some PENDING))"
  by (auto simp: isRegistered_def inUnknownState_def inAcceptedState_def inPendingState_def
      split: option.splits)

lemma isRegistered_update [simp]:
  "isRegistered (s\<lparr>registrationRetryCount := c\<rparr>) = isRegistered s"
  "isRegistered (s\<lparr>sleeps := sl\<rparr>) = isRegistered s"
  "isRegistered (s\<lparr>bootNotificationsSent := n\<rparr>) = isRegistered s"
  "isRegistered (s\<lparr>bootNotificationResponse := Some r\<rparr>) \<longleftrightarrow>
     registrationStatus r = Some ACCEPTED \<or> registrationStatus r = Some PENDING"
  by (auto simp: isRegistered_iff)

lemma registrationLoop_failed_then_registered:
  assumes "\<forall>r \<in> set failed. registrationStatus r = None \<or> registrationStatus r = Some REJECTED"
    and "registrationStatus ok = Some ACCEPTED \<or> registrationStatus ok = Some PENDING"
    and "maxRetries = Some (- 1) \<or>
         (\<exists>m. maxRetries = Some m \<and> registrationRetryCount s + int (length failed) \<le> m)"
  shows "registrationLoop maxRetries d (map Resolves failed @ Resolves ok # rest) s =
           (s\<lparr>bootNotificationResponse := Some ok,
               registrationRetryCount :=
                 (if maxRetries = Some (- 1) then registrationRetryCount s
                  else registrationRetryCount s + int (length failed)),
               bootNotificationsSent := bootNotificationsSent s + length failed + 1,
               sleeps := sleeps s @
                 map (\<lambda>r. case interval r of Some i \<Rightarrow> i * 1000 | None \<Rightarrow> d) failed\<rparr>,
            LoopExited)"
  using assms
proof (induction failed arbitrary: s)
  case Nil
  then show ?case by (auto simp: Let_def)
next
  case (Cons r failed)
  let ?s2 = "s\<lparr>bootNotificationsSent := bootNotificationsSent s + 1,
               bootNotificationResponse := Some r,
               registrationRetryCount :=
                 (if maxRetries \<noteq> Some (- 1) then registrationRetryCount s + 1
                  else registrationRetryCount s),
               sleeps := sleeps s @ [case interval r of Some i \<Rightarrow> i * 1000 | None \<Rightarrow> d]\<rparr>"
  have r: "registrationStatus r = None \<or> registrationStatus r = Some REJECTED"
    using Cons.prems(1) by simp
  have step: "registrationLoop maxRetries d (map Resolves (r # failed) @ Resolves ok # rest) s =
                registrationLoop maxRetries d (map Resolves failed @ Resolves ok # rest) ?s2"
    using r Cons.prems(3) by (auto simp: Let_def)
  have p1: "\<forall>r \<in> set failed. registrationStatus r = None \<or> registrationStatus r = Some REJECTED"
    using Cons.prems(1) by simp
  have p3: "maxRetries = Some (- 1) \<or>
            (\<exists>m. maxRetries = Some m \<and> registrationRetryCount ?s2 + int (length failed) \<le> m)"
    using Cons.prems(3) by auto
  show ?case
    unfolding step Cons.IH [OF p1 Cons.prems(2) p3]
    by auto
qed

lemma registrationLoop_retries_exhausted:
  assumes "\<forall>r \<in> set failed. registrationStatus r = None \<or> registrationStatus r = Some REJECTED"
    and "m \<noteq> - 1"
    and "registrationRetryCount s + int (length failed) = m + 1"
    and "failed \<noteq> []"
  shows "registrationLoop (Some m) d (map Resolves failed @ rest) s =
           (s\<lparr>bootNotificationResponse := Some (last failed),
               registrationRetryCount := m + 1,
               bootNotificationsSent := bootNotificationsSent s + length failed,
               sleeps := sleeps s @
                 map (\<lambda>r. case interval r of Some i \<Rightarrow> i * 1000 | None \<Rightarrow> d) failed\<rparr>,
            LoopExited)"
  using assms
proof (induction failed arbitrary: s)
  case Nil
  then show ?case by simp
next
  case (Cons r failed)
  let ?s2 = "s\<lparr>bootNotificationsSent := bootNotificationsSent s + 1,
               bootNotificationResponse := Some r,
               registrationRetryCount := registrationRetryCount s + 1,
               sleeps := sleeps s @ [case interval r of Some i \<Rightarrow> i * 1000 | None \<Rightarrow> d]\<rparr>"
  have r: "registrationStatus r = None \<or> registrationStatus r = Some REJECTED"
    using Cons.prems(1) by simp
  show ?case
  proof (cases "failed = []")
    case True
    then show ?thesis
      using r Cons.prems(2,3) by (auto simp: Let_def)
  next
    case False
    have len: "1 \<le> int (length failed)"
      using False by (cases failed) simp_all
    have step: "registrationLoop (Some m) d (map Resolves (r # failed) @ rest) s =
                  registrationLoop (Some m) d (map Resolves failed @ rest) ?s2"
      using r Cons.prems(2,3) len by (auto simp: Let_def)
    have p1: "\<forall>r \<in> set failed. registrationStatus r = None \<or> registrationStatus r = Some REJECTED"
      using Cons.prems(1) by simp
    have p3: "registrationRetryCount ?s2 + int (length failed) = m + 1"
      using Cons.prems(3) by simp
    show ?thesis
      unfolding step Cons.IH [OF p1 Cons.prems(2) p3 False]
      using False by auto
  qed
qed


text \<open>
  C5 as stated fails: a response with status Pending makes the station registered
  (\<open>isRegistered\<close> holds in the Accepted and in the Pending state), so the loop ends
  after the first BootNotification, with no wait, no second request and a retry count
  of 0, although a second response (Accepted) would have followed.
\<close>

theorem C5_pending_response_counterexample:
  "onOpen True (Some 5) 60000
     [Resolves (response PENDING 2), Resolves (response ACCEPTED 30)] unregisteredStation =
   (\<lparr>bootNotificationResponse = Some (response PENDING 2), autoReconnectRetryCount = 0,
      registrationRetryCount = 0, bootNotificationsSent = 1, sleeps = [],
      emitted = [registered, updated]\<rparr>, LoopExited)"
  by (simp add: onOpen_def unregisteredStation_def response_def Let_def inAcceptedState_def
      isRegistered_iff)

text \<open>
  C5 (amended): in the registration loop run on connection open by a station that is
  not registered, a BootNotification response with status Accepted or Pending ends the
  loop: the station counts as registered and sends no further BootNotification. After a
  response with status Rejected (or without status) the station increments
  \<open>registrationRetryCount\<close> exactly once (not at all when \<open>registrationMaxRetries\<close> is -1),
  waits \<open>response.interval\<close> seconds (the default interval when the response has none)
  and sends BootNotification again, as long as \<open>registrationRetryCount\<close> is at most
  \<open>registrationMaxRetries\<close> or \<open>registrationMaxRetries\<close> is -1. So: when k failed
  responses are followed by a registering one, and \<open>registrationMaxRetries\<close> is -1 or at
  least k, the station sends k + 1 requests and waits k times; when
  \<open>registrationMaxRetries\<close> is m \<ge> 0 and the first m + 1 responses fail, the loop ends
  unregistered after m + 1 requests (m retries).
\<close>

theorem C5_registration_loop:
  assumes "\<not> isRegistered s"
    and "\<forall>r \<in> set failed. registrationStatus r = None \<or> registrationStatus r = Some REJECTED"
    and "registrationStatus ok = Some ACCEPTED \<or> registrationStatus ok = Some PENDING"
  shows "(maxRetries = Some (- 1) \<or> (\<exists>m. maxRetries = Some m \<and> int (length failed) \<le> m) \<longrightarrow>
            onOpen True maxRetries d (map Resolves failed @ Resolves ok # rest) s =
              (s\<lparr>bootNotificationResponse := Some ok,
                  autoReconnectRetryCount := 0,
                  registrationRetryCount :=
                    (if maxRetries = Some (- 1) then 0 else int (length failed)),
                  bootNotificationsSent := bootNotificationsSent s + length failed + 1,
                  sleeps := sleeps s @
                    map (\<lambda>r. case interval r of Some i \<Rightarrow> i * 1000 | None \<Rightarrow> d) failed,
                  emitted := emitted s @
                    registered #
                    (if registrationStatus ok = Some ACCEPTED then [accepted] else []) @
                    [updated]\<rparr>,
               LoopExited)) \<and>
         ((\<exists>m. maxRetries = Some m \<and> 0 \<le> m \<and> int (length failed) = m + 1) \<longrightarrow>
            onOpen True maxRetries d (map Resolves failed @ rest) s =
              (s\<lparr>bootNotificationResponse := Some (last failed),
                  autoReconnectRetryCount := 0,
                  registrationRetryCount := int (length failed),
                  bootNotificationsSent := bootNotificationsSent s + length failed,
                  sleeps := sleeps s @
                    map (\<lambda>r. case interval r of Some i \<Rightarrow> i * 1000 | None \<Rightarrow> d) failed,
                  emitted := emitted s @ [updated]\<rparr>,
               LoopExited))"
proof (intro conjI impI)
  let ?s0 = "s\<lparr>registrationRetryCount := 0\<rparr>"
  assume m: "maxRetries = Some (- 1) \<or> (\<exists>m. maxRetries = Some m \<and> int (length failed) \<le> m)"
  then have m0: "maxRetries = Some (- 1) \<or>
      (\<exists>m. maxRetries = Some m \<and> registrationRetryCount ?s0 + int (length failed) \<le> m)"
    by simp
  show "onOpen True maxRetries d (map Resolves failed @ Resolves ok # rest) s =
              (s\<lparr>bootNotificationResponse := Some ok,
                  autoReconnectRetryCount := 0,
                  registrationRetryCount :=
                    (if maxRetries = Some (- 1) then 0 else int (length failed)),
                  bootNotificationsSent := bootNotificationsSent s + length failed + 1,
                  sleeps := sleeps s @
                    map (\<lambda>r. case interval r of Some i \<Rightarrow> i * 1000 | None \<Rightarrow> d) failed,
                  emitted := emitted s @
                    registered #
                    (if registrationStatus ok = Some ACCEPTED then [accepted] else []) @
                    [updated]\<rparr>,
               LoopExited)"
    using assms(1,3)
    by (auto simp: onOpen_def Let_def inAcceptedState_def
        registrationLoop_failed_then_registered [OF assms(2,3) m0])
next
  let ?s0 = "s\<lparr>registrationRetryCount := 0\<rparr>"
  assume "\<exists>m. maxRetries = Some m \<and> 0 \<le> m \<and> int (length failed) = m + 1"
  then obtain m where m: "maxRetries = Some m" "0 \<le> m" "int (length failed) = m + 1"
    by blast
  have ne: "failed \<noteq> []" using m(2,3) by auto
  have c: "registrationRetryCount ?s0 + int (length failed) = m + 1" using m(3) by simp
  have m1: "m \<noteq> - 1" using m(2) by simp
  have l: "registrationStatus (last failed) = None \<or>
           registrationStatus (last failed) = Some REJECTED"
    using assms(2) ne last_in_set by blast
  show "onOpen True maxRetries d (map Resolves failed @ rest) s =
              (s\<lparr>bootNotificationResponse := Some (last failed),
                  autoReconnectRetryCount := 0,
                  registrationRetryCount := int (length failed),
                  bootNotificationsSent := bootNotificationsSent s + length failed,
                  sleeps := sleeps s @
                    map (\<lambda>r. case interval r of Some i \<Rightarrow> i * 1000 | None \<Rightarrow> d) failed,
                  emitted := emitted s @ [updated]\<rparr>,
               LoopExited)"
    using assms(1) l m(3)
    by (auto simp: onOpen_def Let_def m(1)
        registrationLoop_retries_exhausted [OF assms(2) m1 c ne])
qed

lemma unregisteredStation_not_registered: "\<not> isRegistered unregisteredStation"
  by (simp add: isRegistered_iff unregisteredStation_def)

theorem C5_registration_loop_witness:
  "\<not> isRegistered unregisteredStation \<and>
   onOpen True (Some 2) 60000
     (map Resolves [response REJECTED 2, response REJECTED 3] @
      Resolves (response ACCEPTED 30) # []) unregisteredStation =
     (\<lparr>bootNotificationResponse = Some (response ACCEPTED 30), autoReconnectRetryCount = 0,
        registrationRetryCount = 2, bootNotificationsSent = 3, sleeps = [2000, 3000],
        emitted = [registered, accepted, updated]\<rparr>, LoopExited) \<and>
   onOpen True (Some 1) 60000
     (map Resolves [response REJECTED 2, response REJECTED 3] @
      [Resolves (response ACCEPTED 30)]) unregisteredStation =
     (\<lparr>bootNotificationResponse = Some (response REJECTED 3), autoReconnectRetryCount = 0,
        registrationRetryCount = 2, bootNotificationsSent = 2, sleeps = [2000, 3000],
        emitted = [updated]\<rparr>, LoopExited)"
  using C5_registration_loop [OF unregisteredStation_not_registered,
      of "[response REJECTED 2, response REJECTED 3]" "response ACCEPTED 30" "Some 2" 60000 "[]"]
    C5_registration_loop [OF unregisteredStation_not_registered,
      of "[response REJECTED 2, response REJECTED 3]" "response ACCEPTED 30" "Some 1" 60000
         "[Resolves (response ACCEPTED 30)]"]
    unregisteredStation_not_registered
  by (simp add: response_def unregisteredStation_def)

subsection \<open>Dates\<close>


lemma getTime_newDate: "\<bar>t\<bar> \<le> maxTime \<Longrightarrow> getTime (newDate t) = Some t"
  by (simp add: getTime_def newDate_def)

lemma getTime_bounds: "getTime date = Some t \<Longrightarrow> \<bar>t\<bar> \<le> maxTime"
  by (auto simp: getTime_def split: Date.splits if_splits)


lemma truncDiv_mult_cancel:
  assumes "0 < b"
  shows "truncDiv (x * b) b = x"
proof (cases "0 \<le> x")
  case True
  then show ?thesis using assms by (simp add: truncDiv_def)
next
  case False
  have "- (x * b) = (- x) * b" by simp
  then have "(- (x * b)) div b = - x"
    using assms by (metis less_irrefl nonzero_mult_div_cancel_right)
  moreover have "\<not> 0 \<le> x * b"
    using False assms by (simp add: zero_le_mult_iff)
  ultimately show ?thesis by (simp add: truncDiv_def)
qed

text \<open>The definitions that evaluate the resolver on a concrete input.\<close>

lemmas resolver_defs =
  getConnectorChargingProfiles_def connectorProfiles_def getConnectorStatus_def
  hasEvses_def stationOf_def connector0_def chargingConnector_def profileOf_def period_def
  getLimitFromChargingProfiles_def chargingProfileIteration_def
  prepareChargingProfile_def prepareChargingProfileKind_def
  canProceedChargingProfile_def isValidDate_def isSafeInteger_def isWithinInterval_def
  isAfter_def isBefore_def addSeconds_def differenceInSeconds_def truncDiv_def
  getTime_def newDate_def maxTime_def Let_def setStartSchedule_def setDuration_def
  setChargingSchedulePeriod_def

subsection \<open>The period search on valid dates\<close>

lemma isAfter_addSeconds:
  assumes "getTime scheduleStart = Some s" and "getTime currentDate = Some now"
    and "\<bar>s + x * 1000\<bar> \<le> maxTime"
  shows "isAfter (addSeconds scheduleStart x) currentDate = (now < s + x * 1000)"
  using assms by (simp add: isAfter_def addSeconds_def getTime_newDate)

lemma differenceInSeconds_addSeconds:
  assumes "getTime scheduleStart = Some s" and "\<bar>s + x * 1000\<bar> \<le> maxTime"
  shows "differenceInSeconds (addSeconds scheduleStart x) scheduleStart = Some x"
  using assms
  by (simp add: differenceInSeconds_def addSeconds_def getTime_newDate truncDiv_mult_cancel)

lemma isArraySorted_iff: "isArraySorted ps \<longleftrightarrow> sorted (map startPeriod ps)"
  by (induction ps rule: isArraySorted.induct) fastforce+

lemma setChargingSchedulePeriod_same:
  "setChargingSchedulePeriod cp (chargingSchedulePeriod (chargingSchedule cp)) = cp"
  by (simp add: setChargingSchedulePeriod_def)

lemma chargingSchedulePeriod_set [simp]:
  "chargingSchedulePeriod (chargingSchedule (setChargingSchedulePeriod cp ps)) = ps"
  by (simp add: setChargingSchedulePeriod_def)

lemma takeWhile_eq_filter_sorted:
  "sorted (map f xs) \<Longrightarrow> takeWhile (\<lambda>x. f x \<le> (c::int)) xs = filter (\<lambda>x. f x \<le> c) xs"
proof (induction xs)
  case Nil
  then show ?case by simp
next
  case (Cons x xs)
  show ?case
  proof (cases "f x \<le> c")
    case True
    then show ?thesis using Cons by simp
  next
    case False
    have "\<forall>y \<in> set xs. \<not> f y \<le> c"
      using Cons.prems False by auto
    then have "filter (\<lambda>x. f x \<le> c) xs = []"
      by (simp add: filter_empty_conv)
    then show ?thesis using False by simp
  qed
qed

lemma sorted_filter_split:
  "sorted (map f xs) \<Longrightarrow>
   xs = filter (\<lambda>x. f x \<le> (c::int)) xs @ filter (\<lambda>x. \<not> f x \<le> c) xs"
proof (induction xs)
  case Nil
  then show ?case by simp
next
  case (Cons x xs)
  show ?case
  proof (cases "f x \<le> c")
    case True
    then show ?thesis using Cons by simp
  next
    case False
    have all: "\<forall>y \<in> set xs. \<not> f y \<le> c"
      using Cons.prems False by auto
    then have "filter (\<lambda>x. f x \<le> c) xs = []" and "filter (\<lambda>x. \<not> f x \<le> c) xs = xs"
      by (simp_all add: filter_empty_conv filter_id_conv)
    then show ?thesis using False by simp
  qed
qed

lemma sorted_absolute_start:
  "sorted (map startPeriod ps) \<Longrightarrow> sorted (map (\<lambda>p. (s::int) + startPeriod p * 1000) ps)"
  by (induction ps) auto

lemma findSchedulePeriod_sorted:
  assumes "sorted (map startPeriod (p # rest))"
    and s: "getTime scheduleStart = Some s" and n: "getTime currentDate = Some now"
    and "now \<le> s + scheduleDuration * 1000"
    and "\<forall>q \<in> set (p # rest). \<bar>s + startPeriod q * 1000\<bar> \<le> maxTime"
  shows "findSchedulePeriod scheduleStart scheduleDuration currentDate previous (p # rest) =
           (if now < s + startPeriod p * 1000
            then (case previous of None \<Rightarrow> Inl TypeError | Some q \<Rightarrow> Inr (Some (limit q)))
            else Inr (Some (limit (last (takeWhile
                   (\<lambda>q. s + startPeriod q * 1000 \<le> now) (p # rest))))))"
  using assms(1,4,5)
proof (induction rest arbitrary: p previous)
  case Nil
  then show ?case by (simp add: isAfter_addSeconds [OF s n])
next
  case (Cons q rest)
  have sq: "sorted (map startPeriod (q # rest))" and pq: "startPeriod p \<le> startPeriod q"
    using Cons.prems(1) by simp_all
  have vp: "\<bar>s + startPeriod p * 1000\<bar> \<le> maxTime" and vq: "\<bar>s + startPeriod q * 1000\<bar> \<le> maxTime"
    and vr: "\<forall>q \<in> set (q # rest). \<bar>s + startPeriod q * 1000\<bar> \<le> maxTime"
    using Cons.prems(3) by simp_all
  note IH = Cons.IH [OF sq Cons.prems(2) vr, of "Some p"]
  note after = isAfter_addSeconds [OF s n vp]
  note diff = differenceInSeconds_addSeconds [OF s vq]
  show ?case
  proof (cases "now < s + startPeriod p * 1000")
    case True
    then show ?thesis by (simp add: after)
  next
    case False
    show ?thesis
    proof (cases "startPeriod q > scheduleDuration")
      case True
      then have "now < s + startPeriod q * 1000"
        using Cons.prems(2) by simp
      then show ?thesis
        using False True by (simp add: after diff)
    next
      case nb: False
      have step:
        "findSchedulePeriod scheduleStart scheduleDuration currentDate previous (p # q # rest) =
           findSchedulePeriod scheduleStart scheduleDuration currentDate (Some p) (q # rest)"
        using False nb by (simp add: after diff)
      show ?thesis
        unfolding step IH using False by simp
    qed
  qed
qed

lemma chargingProfileIteration_active:
  assumes prep: "prepareChargingProfile tz connectorStatus currentDate cp = Some cp'"
    and st: "startSchedule (chargingSchedule cp') = Some scheduleStart"
    and d: "duration (chargingSchedule cp') = Some scheduleDuration"
    and s: "getTime scheduleStart = Some s" and n: "getTime currentDate = Some now"
    and a1: "s \<le> now" and a2: "now \<le> s + scheduleDuration * 1000"
    and a3: "s + scheduleDuration * 1000 \<le> maxTime"
    and ne: "chargingSchedulePeriod (chargingSchedule cp') \<noteq> []"
    and v: "\<forall>p \<in> set (chargingSchedulePeriod (chargingSchedule cp')).
              s + startPeriod p * 1000 \<le> maxTime"
  shows "chargingProfileIteration tz connectorStatus currentDate cp =
           (if startPeriod (hd (sort_key startPeriod (chargingSchedulePeriod (chargingSchedule cp'))))
               \<noteq> 0
            then Continue
            else Return
              (limit (last (filter (\<lambda>p. s + startPeriod p * 1000 \<le> now)
                 (sort_key startPeriod (chargingSchedulePeriod (chargingSchedule cp'))))),
               setChargingSchedulePeriod cp'
                 (sort_key startPeriod (chargingSchedulePeriod (chargingSchedule cp')))))"
proof -
  let ?raw = "chargingSchedulePeriod (chargingSchedule cp')"
  let ?ps = "sort_key startPeriod ?raw"
  let ?P = "\<lambda>p. s + startPeriod p * 1000 \<le> now"
  let ?cp4 = "if \<not> isArraySorted ?raw then setChargingSchedulePeriod cp' ?ps else cp'"
  have cp4: "?cp4 = setChargingSchedulePeriod cp' ?ps"
  proof (cases "isArraySorted ?raw")
    case True
    then have e: "?ps = ?raw" by (simp add: isArraySorted_iff sort_key_id_if_sorted)
    have z: "setChargingSchedulePeriod cp' ?ps = cp'"
      by (subst e) (rule setChargingSchedulePeriod_same)
    have "?cp4 = cp'" using True by simp
    also have "cp' = setChargingSchedulePeriod cp' ?ps" by (rule z [symmetric])
    finally show ?thesis .
  next
    case False
    then show ?thesis by simp
  qed
  have lo: "- maxTime \<le> s" using getTime_bounds [OF s] by simp
  have "\<bar>s + scheduleDuration * 1000\<bar> \<le> maxTime" using a1 a2 a3 lo by linarith
  then have within:
    "isWithinInterval currentDate (scheduleStart, addSeconds scheduleStart scheduleDuration)"
    using a1 a2 s n by (simp add: isWithinInterval_def addSeconds_def getTime_newDate)
  have srt: "sorted (map startPeriod ?ps)" by simp
  have psne: "?ps \<noteq> []" using ne by (metis length_0_conv length_sort)
  then obtain p rest where ps: "?ps = p # rest" by (cases ?ps) auto
  have unfold: "chargingProfileIteration tz connectorStatus currentDate cp =
      (if startPeriod (hd ?ps) \<noteq> 0 then Continue
       else if length ?ps = 1 then Return (limit (hd ?ps), setChargingSchedulePeriod cp' ?ps)
       else (case findSchedulePeriod scheduleStart scheduleDuration currentDate None ?ps of
               Inl e \<Rightarrow> Throw e
             | Inr (Some l) \<Rightarrow> Return (l, setChargingSchedulePeriod cp' ?ps)
             | Inr None \<Rightarrow> Continue))"
    unfolding chargingProfileIteration_def prep option.case st d prod.case
    using within ne by (simp only: if_True if_False not_False_eq_True Let_def cp4
        chargingSchedulePeriod_set)
  show ?thesis
  proof (cases "startPeriod p = 0")
    case False
    then show ?thesis unfolding unfold ps by simp
  next
    case True
    have p0: "?P p" using True a1 by simp
    have "\<forall>q \<in> set (p # rest). startPeriod p \<le> startPeriod q"
      using srt unfolding ps by auto
    moreover have "\<forall>q \<in> set (p # rest). s + startPeriod q * 1000 \<le> maxTime"
      using v ps by (metis set_sort)
    ultimately have valid: "\<forall>q \<in> set (p # rest). \<bar>s + startPeriod q * 1000\<bar> \<le> maxTime"
      using True lo by fastforce
    have tf: "takeWhile ?P (p # rest) = filter ?P (p # rest)"
      using takeWhile_eq_filter_sorted [OF sorted_absolute_start [OF srt, of s], of now]
      by (simp only: ps)
    show ?thesis
    proof (cases "rest = []")
      case rn: True
      then show ?thesis unfolding unfold ps using True p0 by simp
    next
      case rn: False
      have f: "findSchedulePeriod scheduleStart scheduleDuration currentDate None (p # rest) =
                 Inr (Some (limit (last (filter ?P (p # rest)))))"
        using findSchedulePeriod_sorted [OF srt [unfolded ps] s n a2 valid, of None] p0 tf
        by (simp only: not_less [symmetric] if_False)
      show ?thesis
        unfolding unfold ps f using True rn by simp
    qed
  qed
qed

text \<open>
  The period that the resolver selects, on the profiles whose dates are all valid. Let
  a profile pass the preparation of \<open>getLimitFromChargingProfiles\<close> (kind and
  validity checks), let its schedule be active (\<open>startSchedule \<le> now \<le> startSchedule +
  duration\<close>) and end at a valid date, let its period array be non-empty with every
  period starting at a valid date, and let \<open>ps\<close> be the periods sorted ascending by
  \<open>startPeriod\<close> (a stable sort, so a permutation). If the first period of \<open>ps\<close> does not
  start at 0, the profile is skipped: the function goes on with the remaining profiles.
  Otherwise the function returns the limit of the last period of \<open>ps\<close> whose absolute
  start (\<open>startSchedule + startPeriod\<close> seconds) is not after \<open>now\<close>, together with the
  profile holding the sorted periods; the periods not after \<open>now\<close> are a non-empty prefix
  of \<open>ps\<close>, so the period chosen has no successor or a successor that starts after
  \<open>now\<close>.
\<close>

lemma period_selection_on_valid_dates:
  assumes "prepareChargingProfile tz (getConnectorStatus st cid) currentDate cp = Some cp'"
    and "startSchedule (chargingSchedule cp') = Some scheduleStart"
    and "duration (chargingSchedule cp') = Some scheduleDuration"
    and "getTime scheduleStart = Some s" and "getTime currentDate = Some now"
    and "s \<le> now" and "now \<le> s + scheduleDuration * 1000"
    and "s + scheduleDuration * 1000 \<le> maxTime"
    and "chargingSchedulePeriod (chargingSchedule cp') \<noteq> []"
    and "\<forall>p \<in> set (chargingSchedulePeriod (chargingSchedule cp')).
           s + startPeriod p * 1000 \<le> maxTime"
    and "ps = sort_key startPeriod (chargingSchedulePeriod (chargingSchedule cp'))"
  shows "sorted (map startPeriod ps) \<and>
         mset ps = mset (chargingSchedulePeriod (chargingSchedule cp')) \<and>
         (startPeriod (hd ps) \<noteq> 0 \<longrightarrow>
            getLimitFromChargingProfiles tz st cid currentDate (cp # others) =
            getLimitFromChargingProfiles tz st cid currentDate others) \<and>
         (startPeriod (hd ps) = 0 \<longrightarrow>
            getLimitFromChargingProfiles tz st cid currentDate (cp # others) =
              Inr (Some
                (limit (last (filter (\<lambda>p. s + startPeriod p * 1000 \<le> now) ps)),
                 setChargingSchedulePeriod cp' ps)) \<and>
            filter (\<lambda>p. s + startPeriod p * 1000 \<le> now) ps \<noteq> [] \<and>
            ps = filter (\<lambda>p. s + startPeriod p * 1000 \<le> now) ps @
                 filter (\<lambda>p. \<not> s + startPeriod p * 1000 \<le> now) ps)"
proof (intro conjI impI)
  note it = chargingProfileIteration_active [OF assms(1-10), folded assms(11)]
  show srt: "sorted (map startPeriod ps)" by (simp add: assms(11))
  show "mset ps = mset (chargingSchedulePeriod (chargingSchedule cp'))"
    by (simp add: assms(11))
  have psne: "ps \<noteq> []" using assms(9,11) by (metis length_0_conv length_sort)
  {
    assume "startPeriod (hd ps) \<noteq> 0"
    then show "getLimitFromChargingProfiles tz st cid currentDate (cp # others) =
               getLimitFromChargingProfiles tz st cid currentDate others"
      by (simp add: it getLimitFromChargingProfiles_def)
  next
    assume z: "startPeriod (hd ps) = 0"
    then show "getLimitFromChargingProfiles tz st cid currentDate (cp # others) =
              Inr (Some
                (limit (last (filter (\<lambda>p. s + startPeriod p * 1000 \<le> now) ps)),
                 setChargingSchedulePeriod cp' ps))"
      by (simp add: it getLimitFromChargingProfiles_def)
    have "s + startPeriod (hd ps) * 1000 \<le> now"
      using z assms(6) by simp
    moreover have "hd ps \<in> set ps" using psne by simp
    ultimately show "filter (\<lambda>p. s + startPeriod p * 1000 \<le> now) ps \<noteq> []"
      by (auto simp: filter_empty_conv)
    show "ps = filter (\<lambda>p. s + startPeriod p * 1000 \<le> now) ps @
               filter (\<lambda>p. \<not> s + startPeriod p * 1000 \<le> now) ps"
      by (rule sorted_filter_split [OF sorted_absolute_start [OF srt]])
  }
qed

lemma unsortedProfile_resolved:
  "getLimitFromChargingProfiles utc transactionStation 1 (DateOf 5000) [unsortedProfile] =
     Inr (Some (9, setChargingSchedulePeriod unsortedProfile
                     [period 0 16, period 4 9, period 6 3, period 7 2]))"
  by (simp add: unsortedProfile_def transactionStation_def resolver_defs)

subsection \<open>C1: selection of the schedule period\<close>

text \<open>
  C1 at a relative profile without duration, on connector 1 of a station whose
  transaction started on 2024-01-22T12:00Z, at 2024-01-22T13:00Z. The profile carries a
  \<open>startSchedule\<close> (2024-01-01T00:00Z): its default duration is counted from that date
  to the latest date (\<open>maxTime\<close>), then its \<open>startSchedule\<close> becomes the start of the
  transaction. The profile passes the preparation; the current time lies within
  \<open>[startSchedule, startSchedule + duration)\<close>; its only period starts at 0. But the end
  of the schedule, \<open>addSeconds(startSchedule, duration)\<close>, is beyond the latest date, an
  Invalid Date, so the profile is not found active and no limit is returned. The same
  profile without \<open>startSchedule\<close> gets the start of the transaction before its default
  duration is computed, ends at the latest date, and returns its limit, 16.

  A period whose absolute start is beyond the latest date is an Invalid Date as well,
  which no comparison finds after the current time: one second into the hour of
  \<open>farPeriodProfile\<close> the resolver walks past the first period (0 s, 16 A) and returns
  the limit of the second (2 A), whose start is after the current time.
\<close>

theorem C1_dates_beyond_maxTime:
  "getConnectorStatus transactionStation 1 =
     Some (chargingConnector (DateOf 1705924800000) []) \<and>
   prepareChargingProfile utc (getConnectorStatus transactionStation 1)
     (DateOf 1705928400000) relativeProfile =
     Some (profileOf 1 RELATIVE None (Some (DateOf 1705924800000)) (Some 8638295932800)
             AMPERE [period 0 16]) \<and>
   (1705924800000 :: int) \<le> 1705928400000 \<and>
   (1705928400000 :: int) < 1705924800000 + 8638295932800 * 1000 \<and>
   addSeconds (DateOf 1705924800000) 8638295932800 = InvalidDate \<and>
   getLimitFromChargingProfiles utc transactionStation 1 (DateOf 1705928400000)
     [relativeProfile] = Inr None \<and>
   getLimitFromChargingProfiles utc transactionStation 1 (DateOf 1705928400000)
     [relativeProfileOfTransaction] =
     Inr (Some (16, profileOf 1 RELATIVE None (Some (DateOf 1705924800000))
                      (Some 8638294075200) AMPERE [period 0 16])) \<and>
   prepareChargingProfile utc (getConnectorStatus transactionStation 1) (DateOf 1000)
     farPeriodProfile = Some farPeriodProfile \<and>
   isWithinInterval (DateOf 1000) (DateOf 0, addSeconds (DateOf 0) 3600) \<and>
   (1000 :: int) < 0 + 9000000000000 * 1000 \<and>
   addSeconds (DateOf 0) 9000000000000 = InvalidDate \<and>
   getLimitFromChargingProfiles utc transactionStation 1 (DateOf 1000) [farPeriodProfile] =
     Inr (Some (2, farPeriodProfile))"
  by (simp add: relativeProfile_def relativeProfileOfTransaction_def farPeriodProfile_def
      transactionStation_def resolver_defs)

subsection \<open>Calendar arithmetic in a time zone with a fixed offset\<close>

lemma localTime_fixedOffset [simp]: "localTime (fixedOffset off) t = t + off"
  by (simp add: localTime_def fixedOffset_def)

lemma utcTime_fixedOffset [simp]: "utcTime (fixedOffset off) t = t - off"
  by (simp add: utcTime_def fixedOffset_def)









subsection \<open>C2: recurring profiles\<close>



lemma startSchedule_setDuration [simp]:
  "startSchedule (chargingSchedule (setDuration cp v)) = startSchedule (chargingSchedule cp)"
  by (simp add: setDuration_def)

















subsection \<open>C3: unit conversion and cap of the power limit\<close>








end
